theory Spec2Isabelle
  imports Main "HOL-Library.Char_ord" "HOL-Library.List_Lexorder"
begin

section \<open>Data model\<close>

text \<open>
  Python values that travel in a row tuple, and the row tuple itself. A row stored on the
  destination is the list of (column, value) pairs of its INSERT statement.
\<close>

datatype val = VNull | VInt int | VStr string | VBool bool

type_synonym row = "val list"

type_synonym stored_row = "(string \<times> val) list"

text \<open>
  MIGRATION_CONFIG of config.py. Every key is read with \<^verbatim>\<open>.get(key, default)\<close>, so a key
  may be absent (\<open>None\<close>) and the default of the call site applies.
\<close>

record migration_config =
  batch_size :: "int option"
  skip_tables :: "string list option"
  truncate_before_insert :: "bool option"
  skip_missing_tables :: "bool option"

definition get_batch_size :: "migration_config \<Rightarrow> int" where
  "get_batch_size cfg = (case batch_size cfg of None \<Rightarrow> 1000 | Some n \<Rightarrow> n)"

definition get_skip_tables :: "migration_config \<Rightarrow> string list" where
  "get_skip_tables cfg = (case skip_tables cfg of None \<Rightarrow> [] | Some ts \<Rightarrow> ts)"

definition get_skip_missing_tables :: "migration_config \<Rightarrow> bool" where
  "get_skip_missing_tables cfg = (case skip_missing_tables cfg of None \<Rightarrow> True | Some b \<Rightarrow> b)"

definition MIGRATION_CONFIG :: migration_config where
  "MIGRATION_CONFIG =
     \<lparr>batch_size = Some 1000, skip_tables = Some [''vx_principal''],
      truncate_before_insert = Some True, skip_missing_tables = Some True\<rparr>"

text \<open>
  PRIORITY_TABLES_ORDER of config.py, parent tables before child tables. The functions below
  take the priority list as a parameter.
\<close>

definition PRIORITY_TABLES_ORDER :: "string list" where
  "PRIORITY_TABLES_ORDER =
     [''x_portal_user'', ''x_cred_store'', ''x_user'', ''x_group'', ''x_group_groups'',
      ''x_group_users'', ''x_auth_sess'', ''x_service_def'', ''x_service'',
      ''x_service_config_def'', ''x_service_config_map'', ''x_resource_def'',
      ''x_access_type_def'', ''x_access_type_def_grants'', ''x_policy_condition_def'',
      ''x_context_enricher_def'', ''x_enum_def'', ''x_enum_element_def'',
      ''x_security_zone'', ''x_ranger_global_state'', ''x_asset'', ''x_resource'',
      ''x_policy'', ''x_policy_resource'', ''x_policy_resource_map'', ''x_policy_item'',
      ''x_policy_item_access'', ''x_policy_item_condition'', ''x_policy_item_user_perm'',
      ''x_policy_item_group_perm'', ''x_datamask_type_def'', ''x_policy_item_datamask'',
      ''x_policy_item_rowfilter'', ''x_tag_def'', ''x_tag'', ''x_service_resource'',
      ''x_tag_resource_map'', ''x_role'', ''x_role_ref_user'', ''x_role_ref_group'',
      ''x_role_ref_role'', ''x_policy_ref_resource'', ''x_policy_ref_access_type'',
      ''x_policy_ref_condition'', ''x_policy_ref_datamask_type'', ''x_policy_ref_user'',
      ''x_policy_ref_group'', ''x_policy_ref_role'', ''x_security_zone_ref_service'',
      ''x_security_zone_ref_tag_srvc'', ''x_security_zone_ref_resource'',
      ''x_security_zone_ref_user'', ''x_security_zone_ref_group'',
      ''x_security_zone_ref_role'', ''x_modules_master'', ''x_user_module_perm'',
      ''x_group_module_perm'', ''x_gds_dataset'', ''x_gds_project'', ''x_gds_data_share'',
      ''x_gds_shared_resource'', ''x_gds_data_share_in_dataset'',
      ''x_gds_dataset_in_project'', ''x_gds_dataset_policy_map'',
      ''x_gds_project_policy_map'', ''x_rms_service_resource'', ''x_rms_notification'',
      ''x_rms_resource_mapping'', ''x_rms_mapping_provider'', ''x_policy_change_log'',
      ''x_tag_change_log'', ''x_policy_export_audit'', ''x_ugsync_audit_info'',
      ''x_service_version_info'', ''x_plugin_info'', ''x_policy_label'',
      ''x_policy_label_map'', ''x_data_hist'', ''x_perm_map'', ''x_audit_map'',
      ''x_db_base'', ''x_db_version_h'', ''xa_access_audit'', ''x_trx_log_v2'']"

subsection \<open>The source connection\<close>

text \<open>
  The MySQL connection is an external collaborator. Its answers are the fields of this
  record; \<open>my_fails\<close> tells which statements raise (lost connection, missing relation,
  missing privilege).
\<close>

datatype mysql_stmt =
    ShowTables
  | SelectAll string
  | ShowColumns string
  | MyTableExists string
  | MyCount string
  | MySize string

record mysql_conn =
  my_tables :: "string list"
  my_rows :: "string \<Rightarrow> row list"
  my_columns :: "string \<Rightarrow> string list"
  my_sizes :: "string \<Rightarrow> string"
  my_fails :: "mysql_stmt \<Rightarrow> bool"

definition show_tables :: "mysql_conn \<Rightarrow> string list option" where
  "show_tables my = (if my_fails my ShowTables then None else Some (my_tables my))"

definition select_all :: "mysql_conn \<Rightarrow> string \<Rightarrow> row list option" where
  "select_all my t = (if my_fails my (SelectAll t) then None else Some (my_rows my t))"

definition show_columns :: "mysql_conn \<Rightarrow> string \<Rightarrow> string list option" where
  "show_columns my t = (if my_fails my (ShowColumns t) then None else Some (my_columns my t))"

subsection \<open>The destination connection\<close>

text \<open>
  The PostgreSQL connection, opened without autocommit: statements run inside a transaction
  that lasts until the next commit or rollback. \<open>committed\<close> is the durable content of each
  table, \<open>working\<close> is what the session sees (durable content plus the uncommitted changes
  of the open transaction). Sequences are not transactional: \<^verbatim>\<open>setval\<close> is never undone.

  \<open>pg_fails\<close> tells which statements raise for any reason (constraint violation, privilege,
  lock, lost connection). \<open>abort_on_error\<close> is the server's reaction to a failed statement:
  PostgreSQL puts the transaction in the failed state (\<open>aborted\<close>), in which every statement
  raises until the transaction is ended; a server that keeps the transaction usable has
  \<open>abort_on_error = False\<close>. \<open>connect_fails\<close> tells whether opening a new session on the
  database raises. \<open>issued\<close> is the trace of the write and transaction-control statements
  sent so far.
\<close>

datatype pg_stmt =
    SetReplicationRole string
  | TruncateCascade string
  | InsertInto string "string list" row
  | ListBaseTables
  | IsViewQuery string
  | TableExistsQuery string
  | SequenceExists string
  | SelectMaxId string
  | SetVal string int
  | PgCount string
  | PgSize string
  | Commit
  | Rollback

record pg_conn =
  pg_base_tables :: "string list"
  pg_views :: "string list"
  committed :: "string \<Rightarrow> stored_row list"
  working :: "string \<Rightarrow> stored_row list"
  sequences :: "string \<rightharpoonup> int"
  cascade :: "string \<Rightarrow> string list"
  pg_sizes :: "string \<Rightarrow> string"
  aborted :: bool
  abort_on_error :: bool
  pg_fails :: "pg_stmt \<Rightarrow> bool"
  connect_fails :: bool
  issued :: "pg_stmt list"

text \<open>The effect of a data statement that the server accepts.\<close>

fun apply_stmt :: "pg_conn \<Rightarrow> pg_stmt \<Rightarrow> pg_conn" where
  "apply_stmt c (TruncateCascade t) =
     c\<lparr>working := (\<lambda>u. if u = t \<or> u \<in> set (cascade c t) then [] else working c u)\<rparr>"
| "apply_stmt c (InsertInto t cols r) =
     c\<lparr>working := (working c)(t := working c t @ [zip cols r])\<rparr>"
| "apply_stmt c (SetVal s n) = c\<lparr>sequences := (sequences c)(s \<mapsto> n)\<rparr>"
| "apply_stmt c _ = c"

text \<open>
  \<^verbatim>\<open>cursor.execute(stmt)\<close> for a write: the connection afterwards, and whether the call
  returned (\<open>True\<close>) or raised (\<open>False\<close>).
\<close>

definition pg_execute :: "pg_conn \<Rightarrow> pg_stmt \<Rightarrow> pg_conn \<times> bool" where
  "pg_execute c s =
     (let c1 = c\<lparr>issued := issued c @ [s]\<rparr> in
      if aborted c \<or> pg_fails c s
      then (c1\<lparr>aborted := aborted c \<or> abort_on_error c\<rparr>, False)
      else (apply_stmt c1 s, True))"

text \<open>
  A read query inside a transaction: the connection afterwards and the answer, \<open>None\<close> when
  the query raised. Reads are not recorded in \<open>issued\<close>.
\<close>

definition pg_query :: "pg_conn \<Rightarrow> pg_stmt \<Rightarrow> 'a \<Rightarrow> pg_conn \<times> 'a option" where
  "pg_query c s answer =
     (if aborted c \<or> pg_fails c s
      then (c\<lparr>aborted := aborted c \<or> abort_on_error c\<rparr>, None)
      else (c, Some answer))"

text \<open>
  \<^verbatim>\<open>conn.commit()\<close> and \<^verbatim>\<open>conn.rollback()\<close> (also \<^verbatim>\<open>cursor.execute("ROLLBACK")\<close>). Both end
  the transaction; committing a failed transaction discards it.
\<close>

definition pg_commit :: "pg_conn \<Rightarrow> pg_conn \<times> bool" where
  "pg_commit c =
     (let c1 = c\<lparr>issued := issued c @ [Commit]\<rparr> in
      if pg_fails c Commit then (c1, False)
      else if aborted c then (c1\<lparr>working := committed c, aborted := False\<rparr>, True)
      else (c1\<lparr>committed := working c\<rparr>, True))"

definition pg_rollback :: "pg_conn \<Rightarrow> pg_conn \<times> bool" where
  "pg_rollback c =
     (let c1 = c\<lparr>issued := issued c @ [Rollback]\<rparr> in
      if pg_fails c Rollback then (c1, False)
      else (c1\<lparr>working := committed c, aborted := False\<rparr>, True))"

text \<open>
  \<^verbatim>\<open>conn.close(); psycopg2.connect(**POSTGRES_CONFIG)\<close>: a fresh session on the same
  database, in which the uncommitted work of the old session is gone; \<open>None\<close> when the
  connect raises.
\<close>

definition pg_connect :: "pg_conn \<Rightarrow> pg_conn option" where
  "pg_connect c =
     (if connect_fails c then None
      else Some (c\<lparr>working := committed c, aborted := False\<rparr>))"


section \<open>Existence and introspection probes (migrate-data.py)\<close>

text \<open>
  \<^verbatim>\<open>is_view\<close> and \<^verbatim>\<open>table_exists\<close> query the catalog inside the open transaction and turn
  every exception into the answer \<open>False\<close>, without a rollback: after a query that raised,
  the session is left as the server left it, in the failed state on PostgreSQL, where the
  next probes raise as well. The probes return the session beside the answer.
  \<^verbatim>\<open>information_schema.tables\<close> lists base tables and views alike.
\<close>

definition is_view_probe :: "pg_conn \<Rightarrow> string \<Rightarrow> pg_conn \<times> bool" where
  "is_view_probe pg object_name =
     (case pg_query pg (IsViewQuery object_name) (object_name \<in> set (pg_views pg)) of
        (pg', None) \<Rightarrow> (pg', False)
      | (pg', Some answer) \<Rightarrow> (pg', answer))"

definition table_exists_probe :: "pg_conn \<Rightarrow> string \<Rightarrow> pg_conn \<times> bool" where
  "table_exists_probe pg table_name =
     (case pg_query pg (TableExistsQuery table_name)
             (table_name \<in> set (pg_base_tables pg) \<or> table_name \<in> set (pg_views pg)) of
        (pg', None) \<Rightarrow> (pg', False)
      | (pg', Some answer) \<Rightarrow> (pg', answer))"

text \<open>The answers of the probes in a session.\<close>

definition is_view :: "pg_conn \<Rightarrow> string \<Rightarrow> bool" where
  "is_view pg object_name = snd (is_view_probe pg object_name)"

definition table_exists :: "pg_conn \<Rightarrow> string \<Rightarrow> bool" where
  "table_exists pg table_name = snd (table_exists_probe pg table_name)"

section \<open>Table ordering resolver\<close>

text \<open>The filter loop of \<^verbatim>\<open>get_mysql_tables_ordered\<close> (lines 67 to 81).\<close>

fun filter_valid_tables :: "migration_config \<Rightarrow> pg_conn \<Rightarrow> string list \<Rightarrow> string list" where
  "filter_valid_tables cfg pg [] = []"
| "filter_valid_tables cfg pg (t # ts) =
     (if t \<in> set (get_skip_tables cfg) then filter_valid_tables cfg pg ts
      else if is_view pg t then filter_valid_tables cfg pg ts
      else if \<not> table_exists pg t then filter_valid_tables cfg pg ts
      else t # filter_valid_tables cfg pg ts)"

text \<open>
  The priority loop (lines 87 to 90, and 149 to 152 of verify-migration.py): the state is
  \<open>(ordered_tables, valid_tables)\<close>; \<^verbatim>\<open>list.remove\<close> deletes the first occurrence.
\<close>

fun priority_loop :: "string list \<Rightarrow> string list \<times> string list \<Rightarrow> string list \<times> string list" where
  "priority_loop [] (ordered, valid) = (ordered, valid)"
| "priority_loop (p # ps) (ordered, valid) =
     (if p \<in> set valid then priority_loop ps (ordered @ [p], remove1 p valid)
      else priority_loop ps (ordered, valid))"

text \<open>Priority tables first, then the rest sorted (\<^verbatim>\<open>list.sort\<close> on strings).\<close>

definition order_tables :: "string list \<Rightarrow> string list \<Rightarrow> string list" where
  "order_tables priority valid_tables =
     (case priority_loop priority ([], valid_tables) of
        (ordered, rest) \<Rightarrow> ordered @ sort rest)"

text \<open>
  \<^verbatim>\<open>get_mysql_tables_ordered\<close>: \<open>None\<close> when \<^verbatim>\<open>SHOW TABLES\<close> raises (nothing catches it here).
\<close>

definition get_mysql_tables_ordered ::
  "migration_config \<Rightarrow> string list \<Rightarrow> mysql_conn \<Rightarrow> pg_conn \<Rightarrow> string list option" where
  "get_mysql_tables_ordered cfg priority my pg =
     (case show_tables my of
        None \<Rightarrow> None
      | Some all_tables \<Rightarrow> Some (order_tables priority (filter_valid_tables cfg pg all_tables)))"

section \<open>Destructive reset\<close>

text \<open>
  The messages \<^verbatim>\<open>truncate_postgres_tables\<close> logs per table. The function returns the
  connection only; the count of cleared tables is logged at the end, and is kept here
  beside the connection. \<open>entered\<close> lists, in order, the tables that passed the existence
  check, that is the tables whose clearing statements were started. \<open>fatal\<close> is set when an
  exception leaves the function: the loop ends there and nothing is returned to the caller.
\<close>

datatype reset_log =
    LogSkipMissing string
  | LogWarnMissing string
  | LogCleared string
  | LogFailed string
  | LogReconnect

record reset_state =
  rs_conn :: pg_conn
  truncated_count :: nat
  entered :: "string list"
  rs_log :: "reset_log list"
  fatal :: bool

text \<open>
  The \<^verbatim>\<open>except\<close> block (lines 137 to 154): a first ROLLBACK whose failure is ignored, then
  ROLLBACK and commit, and when either raises the connection is closed and a new one opened
  (lines 153 and 154). Nothing catches an exception of that connect.
\<close>

datatype recovery = Recovered pg_conn | Reopened pg_conn | ConnectFailed pg_conn

definition reopen :: "pg_conn \<Rightarrow> recovery" where
  "reopen c = (case pg_connect c of None \<Rightarrow> ConnectFailed c | Some c' \<Rightarrow> Reopened c')"

definition recover_session :: "pg_conn \<Rightarrow> recovery" where
  "recover_session c =
     (let c1 = fst (pg_rollback c) in
      case pg_rollback c1 of
        (c2, False) \<Rightarrow> reopen c2
      | (c2, True) \<Rightarrow>
          (case pg_commit c2 of
             (c3, False) \<Rightarrow> reopen c3
           | (c3, True) \<Rightarrow> Recovered c3))"

definition failed_clear :: "reset_state \<Rightarrow> string \<Rightarrow> pg_conn \<Rightarrow> reset_state" where
  "failed_clear st t c =
     (case recover_session c of
        Recovered c' \<Rightarrow> st\<lparr>rs_conn := c', rs_log := rs_log st @ [LogFailed t]\<rparr>
      | Reopened c' \<Rightarrow> st\<lparr>rs_conn := c', rs_log := rs_log st @ [LogFailed t, LogReconnect]\<rparr>
      | ConnectFailed c' \<Rightarrow>
          st\<lparr>rs_conn := c', rs_log := rs_log st @ [LogFailed t, LogReconnect], fatal := True\<rparr>)"

text \<open>
  The statements of the \<^verbatim>\<open>try\<close> block for a table that exists (lines 124 to 135). The
  counter is incremented right after TRUNCATE returns, before the role is restored and the
  transaction committed.
\<close>

definition clear_table :: "reset_state \<Rightarrow> string \<Rightarrow> reset_state" where
  "clear_table st t =
     (case pg_execute (rs_conn st) (SetReplicationRole ''replica'') of
        (c1, False) \<Rightarrow> failed_clear st t c1
      | (c1, True) \<Rightarrow>
          (case pg_execute c1 (TruncateCascade t) of
             (c2, False) \<Rightarrow> failed_clear st t c2
           | (c2, True) \<Rightarrow>
               (let st2 = st\<lparr>truncated_count := truncated_count st + 1,
                              rs_log := rs_log st @ [LogCleared t]\<rparr> in
                case pg_execute c2 (SetReplicationRole ''origin'') of
                  (c3, False) \<Rightarrow> failed_clear st2 t c3
                | (c3, True) \<Rightarrow>
                    (case pg_commit c3 of
                       (c4, False) \<Rightarrow> failed_clear st2 t c4
                     | (c4, True) \<Rightarrow> st2\<lparr>rs_conn := c4\<rparr>))))"

text \<open>
  One iteration of the loop (lines 109 to 157). The existence probe runs in the session of
  the loop and leaves it as the probe left it; both branches for a table reported missing
  continue with the next table.
\<close>

definition truncate_step :: "migration_config \<Rightarrow> reset_state \<Rightarrow> string \<Rightarrow> reset_state" where
  "truncate_step cfg st table_name =
     (case table_exists_probe (rs_conn st) table_name of
        (c, False) \<Rightarrow>
          (if get_skip_missing_tables cfg
           then st\<lparr>rs_conn := c, rs_log := rs_log st @ [LogSkipMissing table_name]\<rparr>
           else st\<lparr>rs_conn := c, rs_log := rs_log st @ [LogWarnMissing table_name]\<rparr>)
      | (c, True) \<Rightarrow>
          clear_table (st\<lparr>rs_conn := c, entered := entered st @ [table_name]\<rparr>) table_name)"

text \<open>The loop over the tables: an exception that leaves an iteration leaves the loop.\<close>

fun truncate_loop :: "migration_config \<Rightarrow> reset_state \<Rightarrow> string list \<Rightarrow> reset_state" where
  "truncate_loop cfg st [] = st"
| "truncate_loop cfg st (t # ts) =
     (let st' = truncate_step cfg st t in
      if fatal st' then st' else truncate_loop cfg st' ts)"

definition truncate_postgres_tables ::
  "migration_config \<Rightarrow> string list \<Rightarrow> pg_conn \<Rightarrow> reset_state" where
  "truncate_postgres_tables cfg priority postgres_conn =
     truncate_loop cfg
       \<lparr>rs_conn = postgres_conn, truncated_count = 0, entered = [], rs_log = [],
        fatal = False\<rparr>
       (rev priority)"

text \<open>The tables reported missing in a log, and the targets of the TRUNCATE statements of a trace.\<close>

fun missing_tables :: "reset_log list \<Rightarrow> string list" where
  "missing_tables [] = []"
| "missing_tables (LogSkipMissing t # l) = t # missing_tables l"
| "missing_tables (LogWarnMissing t # l) = t # missing_tables l"
| "missing_tables (_ # l) = missing_tables l"

fun truncate_targets :: "pg_stmt list \<Rightarrow> string list" where
  "truncate_targets [] = []"
| "truncate_targets (TruncateCascade t # l) = t # truncate_targets l"
| "truncate_targets (_ # l) = truncate_targets l"

section \<open>Type coercion\<close>

text \<open>
  An entry of TYPE_CONVERSIONS: the \<^verbatim>\<open>'tables'\<close> dictionary and the \<^verbatim>\<open>'conversion'\<close>
  function, each read with \<^verbatim>\<open>.get\<close>. A conversion returns \<open>None\<close> when it raises.
\<close>

record type_conversion =
  tc_tables :: "(string \<times> string list) list option"
  tc_conversion :: "(val \<Rightarrow> val option) option"

text \<open>Python's \<^verbatim>\<open>x == n\<close> for an integer literal: \<^verbatim>\<open>True == 1\<close> and \<^verbatim>\<open>False == 0\<close> hold.\<close>

fun py_eq_int :: "val \<Rightarrow> int \<Rightarrow> bool" where
  "py_eq_int (VInt i) n = (i = n)"
| "py_eq_int (VBool b) n = ((if b then 1 else 0) = n)"
| "py_eq_int _ n = False"

definition boolean_conversion :: "val \<Rightarrow> val option" where
  "boolean_conversion x =
     Some (if py_eq_int x 1 then VBool True else if py_eq_int x 0 then VBool False else VNull)"

definition TYPE_CONVERSIONS :: "(string \<times> type_conversion) list" where
  "TYPE_CONVERSIONS =
     [(''boolean'',
       \<lparr>tc_tables = Some
          [(''x_service_def'', [''is_enabled'']),
           (''x_service'', [''is_enabled'']),
           (''x_policy'', [''is_enabled'', ''is_audit_enabled'']),
           (''x_service_config_def'', [''is_mandatory'']),
           (''x_resource_def'',
              [''mandatory'', ''look_up_supported'', ''recursive_supported'',
               ''excludes_supported'']),
           (''x_policy_resource'', [''is_excludes'', ''is_recursive''])],
        tc_conversion = Some boolean_conversion\<rparr>)]"

text \<open>\<^verbatim>\<open>columns.index(col_name)\<close>, called only when the name is in the list.\<close>

fun index_of :: "'a \<Rightarrow> 'a list \<Rightarrow> nat" where
  "index_of x [] = 0"
| "index_of x (y # ys) = (if x = y then 0 else Suc (index_of x ys))"

text \<open>The loop over \<^verbatim>\<open>columns_to_convert\<close> for one row (lines 177 to 186).\<close>

fun convert_columns ::
  "(val \<Rightarrow> val option) \<Rightarrow> string list \<Rightarrow> string list \<Rightarrow> row \<Rightarrow> row" where
  "convert_columns conversion_func columns [] converted_row = converted_row"
| "convert_columns conversion_func columns (col_name # cs) converted_row =
     convert_columns conversion_func columns cs
       (if col_name \<in> set columns then
          (let col_index = index_of col_name columns in
           if col_index < length converted_row then
             (case conversion_func (converted_row ! col_index) of
                Some v \<Rightarrow> converted_row[col_index := v]
              | None \<Rightarrow> converted_row)
           else converted_row)
        else converted_row)"

text \<open>The loop over \<^verbatim>\<open>TYPE_CONVERSIONS.items()\<close> for one row (lines 170 to 175).\<close>

fun apply_conversions ::
  "(string \<times> type_conversion) list \<Rightarrow> string \<Rightarrow> string list \<Rightarrow> row \<Rightarrow> row" where
  "apply_conversions [] table_name columns converted_row = converted_row"
| "apply_conversions ((conversion_type, conversion_config) # rest) table_name columns
       converted_row =
     (let tables_config = (case tc_tables conversion_config of None \<Rightarrow> [] | Some d \<Rightarrow> d) in
      case (map_of tables_config table_name, tc_conversion conversion_config) of
        (Some columns_to_convert, Some conversion_func) \<Rightarrow>
          apply_conversions rest table_name columns
            (convert_columns conversion_func columns columns_to_convert converted_row)
      | _ \<Rightarrow> apply_conversions rest table_name columns converted_row)"

definition convert_data_types ::
  "(string \<times> type_conversion) list \<Rightarrow> string \<Rightarrow> string list \<Rightarrow> row list \<Rightarrow> row list" where
  "convert_data_types conversions table_name columns rows =
     map (apply_conversions conversions table_name columns) rows"

section \<open>Row transfer engine\<close>

text \<open>
  \<^verbatim>\<open>rows[i:i + batch_size] for i in range(0, len(rows), batch_size)\<close> for a positive
  step: consecutive slices of \<open>n\<close> rows, the last one shorter.
\<close>

function chunks :: "nat \<Rightarrow> 'a list \<Rightarrow> 'a list list" where
  "chunks n xs = (if n = 0 \<or> xs = [] then [] else take n xs # chunks n (drop n xs))"
  by pat_completeness auto
termination
  by (relation "measure (\<lambda>(n, xs). length xs)") auto

text \<open>
  \<^verbatim>\<open>cursor.executemany(INSERT, batch)\<close>: the rows are sent one after the other, and the
  first failing one raises. The flag is \<open>True\<close> when the call returned.
\<close>

fun executemany :: "pg_conn \<Rightarrow> string \<Rightarrow> string list \<Rightarrow> row list \<Rightarrow> pg_conn \<times> bool" where
  "executemany c table_name columns [] = (c, True)"
| "executemany c table_name columns (r # rs) =
     (case pg_execute c (InsertInto table_name columns r) of
        (c', False) \<Rightarrow> (c', False)
      | (c', True) \<Rightarrow> executemany c' table_name columns rs)"

text \<open>The row-by-row replay of a failed batch (lines 247 to 257).\<close>

fun insert_one_by_one ::
  "pg_conn \<Rightarrow> string \<Rightarrow> string list \<Rightarrow> row list \<Rightarrow> int \<Rightarrow> pg_conn \<times> int" where
  "insert_one_by_one c table_name columns [] insert_count = (c, insert_count)"
| "insert_one_by_one c table_name columns (single_row # rs) insert_count =
     (case pg_execute c (InsertInto table_name columns single_row) of
        (c', False) \<Rightarrow> insert_one_by_one c' table_name columns rs insert_count
      | (c', True) \<Rightarrow> insert_one_by_one c' table_name columns rs (insert_count + 1))"

text \<open>
  The batch loop (lines 226 to 257). The count is \<open>None\<close> when \<^verbatim>\<open>postgres_conn.rollback()\<close>
  of the batch handler raised, which leaves the loop for the outer handler.
\<close>

fun insert_batches ::
  "pg_conn \<Rightarrow> string \<Rightarrow> string list \<Rightarrow> row list list \<Rightarrow> int \<Rightarrow> pg_conn \<times> int option" where
  "insert_batches c table_name columns [] insert_count = (c, Some insert_count)"
| "insert_batches c table_name columns (batch # bs) insert_count =
     (case executemany c table_name columns batch of
        (c1, True) \<Rightarrow>
          insert_batches c1 table_name columns bs (insert_count + int (length batch))
      | (c1, False) \<Rightarrow>
          (case pg_rollback c1 of
             (c2, False) \<Rightarrow> (c2, None)
           | (c2, True) \<Rightarrow>
               (case insert_one_by_one c2 table_name columns batch insert_count of
                  (c3, n) \<Rightarrow> insert_batches c3 table_name columns bs n)))"

text \<open>The outer handler (lines 263 to 269): a rollback whose failure is ignored, and 0.\<close>

definition critical_error :: "pg_conn \<Rightarrow> int \<times> pg_conn" where
  "critical_error c = (0, fst (pg_rollback c))"

text \<open>
  \<^verbatim>\<open>migrate_table_data\<close>: the count returned and the destination connection afterwards.
  \<^verbatim>\<open>range\<close> raises ValueError for a step of 0 and is empty for a negative step.
\<close>

definition migrate_table_data ::
  "migration_config \<Rightarrow> (string \<times> type_conversion) list \<Rightarrow> mysql_conn \<Rightarrow> pg_conn \<Rightarrow> string
     \<Rightarrow> int \<times> pg_conn" where
  "migrate_table_data cfg conversions my pg table_name =
     (case select_all my table_name of
        None \<Rightarrow> critical_error pg
      | Some rows \<Rightarrow>
          if rows = [] then (0, pg)
          else
            (case show_columns my table_name of
               None \<Rightarrow> critical_error pg
             | Some columns \<Rightarrow>
                 (let converted_rows = convert_data_types conversions table_name columns rows;
                      batch_size = get_batch_size cfg in
                  if batch_size = 0 then critical_error pg
                  else
                    (case insert_batches pg table_name columns
                            (if batch_size < 0 then [] else chunks (nat batch_size) converted_rows)
                            0 of
                       (c, None) \<Rightarrow> critical_error c
                     | (c, Some insert_count) \<Rightarrow>
                         (case pg_commit c of
                            (c', False) \<Rightarrow> critical_error c'
                          | (c', True) \<Rightarrow> (insert_count, c'))))))"

section \<open>Sequence reconciler\<close>









section \<open>Table discovery of the verification pass (verify-migration.py)\<close>

text \<open>
  \<^verbatim>\<open>table_exists(conn, name, 'mysql')\<close>; for the destination the verification script has
  its own copies of \<^verbatim>\<open>is_view\<close> and \<^verbatim>\<open>table_exists\<close>, the same as above. A failed statement
  does not change a MySQL session.
\<close>

definition my_table_exists :: "mysql_conn \<Rightarrow> string \<Rightarrow> bool" where
  "my_table_exists my table_name =
     (if my_fails my (MyTableExists table_name) then False
      else table_name \<in> set (my_tables my))"

text \<open>
  The guarded listing at the head of \<^verbatim>\<open>get_all_tables\<close>: an exception leaves the lists
  that were not yet assigned empty.
\<close>

definition list_tables :: "mysql_conn \<Rightarrow> pg_conn \<Rightarrow> (string list \<times> string list) \<times> pg_conn" where
  "list_tables my pg =
     (case show_tables my of
        None \<Rightarrow> (([], []), pg)
      | Some mysql_tables \<Rightarrow>
          (case pg_query pg ListBaseTables (pg_base_tables pg) of
             (pg', None) \<Rightarrow> ((mysql_tables, []), pg')
           | (pg', Some postgres_tables) \<Rightarrow> ((mysql_tables, postgres_tables), pg')))"

fun filter_verify_tables :: "migration_config \<Rightarrow> pg_conn \<Rightarrow> string list \<Rightarrow> string list" where
  "filter_verify_tables cfg pg [] = []"
| "filter_verify_tables cfg pg (t # ts) =
     (if t \<in> set (get_skip_tables cfg) then filter_verify_tables cfg pg ts
      else if is_view pg t then filter_verify_tables cfg pg ts
      else t # filter_verify_tables cfg pg ts)"


definition get_all_tables ::
  "migration_config \<Rightarrow> string list \<Rightarrow> (string list \<Rightarrow> string list) \<Rightarrow> mysql_conn \<Rightarrow> pg_conn
     \<Rightarrow> string list \<times> pg_conn" where
  "get_all_tables cfg priority set_iter my pg =
     (case list_tables my pg of
        ((mysql_tables, postgres_tables), pg') \<Rightarrow>
          (order_tables priority
             (filter_verify_tables cfg pg' (set_iter (mysql_tables @ postgres_tables))), pg'))"


section \<open>Table verification (verify-migration.py)\<close>

text \<open>
  \<^verbatim>\<open>get_table_row_count\<close> and \<^verbatim>\<open>get_table_size\<close> for each side: every exception becomes the
  sentinel \<open>-1\<close> or \<^verbatim>\<open>"N/A"\<close>. The count on the destination is what the session sees.
\<close>

definition get_table_row_count_mysql :: "mysql_conn \<Rightarrow> string \<Rightarrow> int" where
  "get_table_row_count_mysql my table_name =
     (if my_fails my (MyCount table_name) then - 1 else int (length (my_rows my table_name)))"

definition get_table_row_count_postgres :: "pg_conn \<Rightarrow> string \<Rightarrow> pg_conn \<times> int" where
  "get_table_row_count_postgres pg table_name =
     (case pg_query pg (PgCount table_name) (int (length (working pg table_name))) of
        (pg', None) \<Rightarrow> (pg', - 1)
      | (pg', Some n) \<Rightarrow> (pg', n))"

definition get_table_size_mysql :: "mysql_conn \<Rightarrow> string \<Rightarrow> string" where
  "get_table_size_mysql my table_name =
     (if my_fails my (MySize table_name) then ''N/A'' else my_sizes my table_name)"

definition get_table_size_postgres :: "pg_conn \<Rightarrow> string \<Rightarrow> pg_conn \<times> string" where
  "get_table_size_postgres pg table_name =
     (case pg_query pg (PgSize table_name) (pg_sizes pg table_name) of
        (pg', None) \<Rightarrow> (pg', ''N/A'')
      | (pg', Some sz) \<Rightarrow> (pg', sz))"

text \<open>The result dictionary of \<^verbatim>\<open>verify_table_data\<close> and its status strings.\<close>

datatype status =
    UNKNOWN
  | MISSING_BOTH
  | MISSING_MYSQL
  | MISSING_POSTGRES
  | MATCH
  | EMPTY_POSTGRES
  | EMPTY_MYSQL
  | MISMATCH

record verification_result =
  table :: string
  mysql_exists :: bool
  postgres_exists :: bool
  mysql_count :: int
  postgres_count :: int
  mysql_size :: string
  postgres_size :: string
  status :: status

text \<open>The chain that determines the status from the two counts (lines 197 to 204).\<close>

definition count_status :: "int \<Rightarrow> int \<Rightarrow> status" where
  "count_status m_count p_count =
     (if m_count = p_count then MATCH
      else if p_count = 0 then EMPTY_POSTGRES
      else if m_count = 0 then EMPTY_MYSQL
      else MISMATCH)"

text \<open>\<^verbatim>\<open>verify_table_data\<close>: the result and the destination session afterwards.\<close>

definition verify_table_data ::
  "mysql_conn \<Rightarrow> pg_conn \<Rightarrow> string \<Rightarrow> verification_result \<times> pg_conn" where
  "verify_table_data my pg table_name =
     (let result = \<lparr>table = table_name, mysql_exists = False, postgres_exists = False,
                     mysql_count = 0, postgres_count = 0, mysql_size = ''N/A'',
                     postgres_size = ''N/A'', status = UNKNOWN\<rparr>;
          m_exists = my_table_exists my table_name in
      case table_exists_probe pg table_name of
        (pg1, p_exists) \<Rightarrow>
          (let result1 = result\<lparr>mysql_exists := m_exists, postgres_exists := p_exists\<rparr> in
           if \<not> m_exists \<and> \<not> p_exists then (result1\<lparr>status := MISSING_BOTH\<rparr>, pg1)
           else if \<not> m_exists then (result1\<lparr>status := MISSING_MYSQL\<rparr>, pg1)
           else if \<not> p_exists then (result1\<lparr>status := MISSING_POSTGRES\<rparr>, pg1)
           else
             (let m_count = get_table_row_count_mysql my table_name in
              case get_table_row_count_postgres pg1 table_name of
                (pg2, p_count) \<Rightarrow>
                  (let m_size = get_table_size_mysql my table_name in
                   case get_table_size_postgres pg2 table_name of
                     (pg3, p_size) \<Rightarrow>
                       (result1\<lparr>mysql_count := m_count, postgres_count := p_count,
                                mysql_size := m_size, postgres_size := p_size,
                                status := count_status m_count p_count\<rparr>, pg3)))))"

text \<open>The loop of \<^verbatim>\<open>main\<close> over the tables (lines 327 to 330).\<close>

fun verify_tables ::
  "mysql_conn \<Rightarrow> pg_conn \<Rightarrow> string list \<Rightarrow> verification_result list \<times> pg_conn" where
  "verify_tables my pg [] = ([], pg)"
| "verify_tables my pg (t # ts) =
     (case verify_table_data my pg t of
        (result, pg1) \<Rightarrow>
          (case verify_tables my pg1 ts of
             (results, pg2) \<Rightarrow> (result # results, pg2)))"

text \<open>
  What \<^verbatim>\<open>main\<close> meets outside the two databases: the results of the two connects (\<open>None\<close>
  when the connect raises) and whether printing the report raises.
\<close>

record verify_env =
  mysql_connect :: "mysql_conn option"
  postgres_connect :: "pg_conn option"
  report_raises :: "verification_result list \<Rightarrow> bool"

text \<open>The statuses that \<^verbatim>\<open>main\<close> collects in \<^verbatim>\<open>mismatched_tables\<close> (line 336).\<close>

definition mismatched :: "verification_result \<Rightarrow> bool" where
  "mismatched r \<longleftrightarrow>
     status r = MISMATCH \<or> status r = MISSING_POSTGRES \<or> status r = EMPTY_POSTGRES"

text \<open>
  The results that \<^verbatim>\<open>main\<close> of the verification script collects, and its exit status: every
  exception ends in \<^verbatim>\<open>sys.exit(1)\<close>.
\<close>

definition verification_results ::
  "migration_config \<Rightarrow> string list \<Rightarrow> (string list \<Rightarrow> string list) \<Rightarrow> mysql_conn \<Rightarrow> pg_conn
     \<Rightarrow> verification_result list" where
  "verification_results cfg priority set_iter my pg =
     (case get_all_tables cfg priority set_iter my pg of
        (all_tables, pg1) \<Rightarrow> fst (verify_tables my pg1 all_tables))"

definition main ::
  "verify_env \<Rightarrow> migration_config \<Rightarrow> string list \<Rightarrow> (string list \<Rightarrow> string list) \<Rightarrow> int" where
  "main env cfg priority set_iter =
     (case mysql_connect env of
        None \<Rightarrow> 1
      | Some my \<Rightarrow>
          (case postgres_connect env of
             None \<Rightarrow> 1
           | Some pg \<Rightarrow>
               (let results = verification_results cfg priority set_iter my pg in
                if report_raises env results then 1
                else if filter mismatched results \<noteq> [] then 1
                else 0)))"

section \<open>Example databases\<close>

text \<open>A healthy destination session with one base table, and a source with two tables.\<close>

definition pg_one_table :: pg_conn where
  "pg_one_table =
     \<lparr>pg_base_tables = [''x_user''], pg_views = [], committed = (\<lambda>_. []), working = (\<lambda>_. []),
      sequences = Map.empty, cascade = (\<lambda>_. []), pg_sizes = (\<lambda>_. ''0 bytes''),
      aborted = False, abort_on_error = True, pg_fails = (\<lambda>_. False), connect_fails = False, issued = []\<rparr>"

definition my_two_tables :: mysql_conn where
  "my_two_tables =
     \<lparr>my_tables = [''x_user'', ''x_new''], my_rows = (\<lambda>_. []), my_columns = (\<lambda>_. []),
      my_sizes = (\<lambda>_. ''0.00 MB''), my_fails = (\<lambda>_. False)\<rparr>"

definition cfg_keep_missing :: migration_config where
  "cfg_keep_missing = MIGRATION_CONFIG\<lparr>skip_missing_tables := Some False\<rparr>"



text \<open>
  A destination for the reset: \<open>x_group\<close> is missing, and TRUNCATE of \<open>x_role\<close> is refused.
\<close>

definition pg_reset :: pg_conn where
  "pg_reset =
     \<lparr>pg_base_tables = [''x_user'', ''x_role''], pg_views = [],
      committed = (\<lambda>_. []), working = (\<lambda>_. []),
      sequences = Map.empty, cascade = (\<lambda>_. []), pg_sizes = (\<lambda>_. ''0 bytes''),
      aborted = False, abort_on_error = True,
      pg_fails = (\<lambda>s. s = TruncateCascade ''x_role''), connect_fails = False, issued = []\<rparr>"


text \<open>
  Two destinations in which the reset goes wrong: in the first the existence query for
  \<open>x_role\<close> raises; in the second TRUNCATE of \<open>x_role\<close> and every ROLLBACK raise, and no new
  connection can be opened.
\<close>

definition pg_probe_fails :: pg_conn where
  "pg_probe_fails =
     \<lparr>pg_base_tables = [''x_user'', ''x_role''], pg_views = [],
      committed = (\<lambda>_. []), working = (\<lambda>_. []),
      sequences = Map.empty, cascade = (\<lambda>_. []), pg_sizes = (\<lambda>_. ''0 bytes''),
      aborted = False, abort_on_error = True,
      pg_fails = (\<lambda>s. s = TableExistsQuery ''x_role''), connect_fails = False, issued = []\<rparr>"

definition pg_no_reconnect :: pg_conn where
  "pg_no_reconnect =
     \<lparr>pg_base_tables = [''x_user'', ''x_role''], pg_views = [],
      committed = (\<lambda>_. []), working = (\<lambda>_. []),
      sequences = Map.empty, cascade = (\<lambda>_. []), pg_sizes = (\<lambda>_. ''0 bytes''),
      aborted = False, abort_on_error = True,
      pg_fails = (\<lambda>s. s = TruncateCascade ''x_role'' \<or> s = Rollback),
      connect_fails = True, issued = []\<rparr>"

text \<open>
  A source table of four rows moved in batches of two; the destination refuses the third
  row. \<open>pg_strict\<close> reacts to a failed statement as PostgreSQL does, \<open>pg_lenient\<close> keeps the
  transaction usable.
\<close>

definition cfg_batch2 :: migration_config where
  "cfg_batch2 = MIGRATION_CONFIG\<lparr>batch_size := Some 2\<rparr>"

definition user_columns :: "string list" where
  "user_columns = [''id'', ''login'']"

definition user_row :: "int \<Rightarrow> row" where
  "user_row n = [VInt n, VStr ''u'']"

definition my_four_rows :: mysql_conn where
  "my_four_rows =
     \<lparr>my_tables = [''x_user''],
      my_rows = (\<lambda>t. if t = ''x_user'' then [user_row 1, user_row 2, user_row 3, user_row 4]
                     else []),
      my_columns = (\<lambda>_. user_columns), my_sizes = (\<lambda>_. ''0.02 MB''),
      my_fails = (\<lambda>_. False)\<rparr>"

definition pg_strict :: pg_conn where
  "pg_strict =
     \<lparr>pg_base_tables = [''x_user''], pg_views = [], committed = (\<lambda>_. []), working = (\<lambda>_. []),
      sequences = [''x_user_seq'' \<mapsto> 1], cascade = (\<lambda>_. []), pg_sizes = (\<lambda>_. ''0 bytes''),
      aborted = False, abort_on_error = True,
      pg_fails = (\<lambda>s. s = InsertInto ''x_user'' user_columns (user_row 3)), connect_fails = False, issued = []\<rparr>"

definition pg_lenient :: pg_conn where
  "pg_lenient = pg_strict\<lparr>abort_on_error := False\<rparr>"

text \<open>
  A verification run in which the source table \<open>x_user\<close> is empty and the destination table
  holds one row.
\<close>

definition my_empty_user :: mysql_conn where
  "my_empty_user =
     \<lparr>my_tables = [''x_user''], my_rows = (\<lambda>_. []), my_columns = (\<lambda>_. [''id'']),
      my_sizes = (\<lambda>_. ''0.02 MB''), my_fails = (\<lambda>_. False)\<rparr>"

definition pg_one_row :: pg_conn where
  "pg_one_row =
     \<lparr>pg_base_tables = [''x_user''], pg_views = [],
      committed = (\<lambda>t. if t = ''x_user'' then [[(''id'', VInt 1)]] else []),
      working = (\<lambda>t. if t = ''x_user'' then [[(''id'', VInt 1)]] else []),
      sequences = Map.empty, cascade = (\<lambda>_. []), pg_sizes = (\<lambda>_. ''8192 bytes''),
      aborted = False, abort_on_error = True, pg_fails = (\<lambda>_. False),
      connect_fails = False, issued = []\<rparr>"

definition env_empty_source :: verify_env where
  "env_empty_source =
     \<lparr>mysql_connect = Some my_empty_user, postgres_connect = Some pg_one_row,
      report_raises = (\<lambda>_. False)\<rparr>"

text \<open>A source and a destination on which counting the rows of \<open>x_user\<close> raises.\<close>

definition my_count_fails :: mysql_conn where
  "my_count_fails =
     \<lparr>my_tables = [''x_user''], my_rows = (\<lambda>_. [[VInt 1], [VInt 2]]),
      my_columns = (\<lambda>_. [''id'']), my_sizes = (\<lambda>_. ''0.02 MB''),
      my_fails = (\<lambda>s. s = MyCount ''x_user'')\<rparr>"

definition pg_count_fails :: pg_conn where
  "pg_count_fails =
     \<lparr>pg_base_tables = [''x_user''], pg_views = [],
      committed = (\<lambda>t. if t = ''x_user'' then [[(''id'', VInt 1)]] else []),
      working = (\<lambda>t. if t = ''x_user'' then [[(''id'', VInt 1)]] else []),
      sequences = Map.empty, cascade = (\<lambda>_. []), pg_sizes = (\<lambda>_. ''8192 bytes''),
      aborted = False, abort_on_error = True, pg_fails = (\<lambda>s. s = PgCount ''x_user''),
      connect_fails = False, issued = []\<rparr>"

text \<open>A verification run in which the source table \<open>x_new\<close> is missing on the destination.\<close>

definition env_missing_table :: verify_env where
  "env_missing_table =
     \<lparr>mysql_connect = Some my_two_tables, postgres_connect = Some pg_one_table,
      report_raises = (\<lambda>_. False)\<rparr>"


section \<open>Properties of the probes\<close>

lemma table_exists_iff:
  "table_exists pg t \<longleftrightarrow>
     \<not> aborted pg \<and> \<not> pg_fails pg (TableExistsQuery t)
     \<and> (t \<in> set (pg_base_tables pg) \<or> t \<in> set (pg_views pg))"
  by (simp add: table_exists_def table_exists_probe_def pg_query_def)

lemma is_view_iff:
  "is_view pg t \<longleftrightarrow>
     \<not> aborted pg \<and> \<not> pg_fails pg (IsViewQuery t) \<and> t \<in> set (pg_views pg)"
  by (simp add: is_view_def is_view_probe_def pg_query_def)

lemma table_exists_probe_eq:
  "table_exists_probe pg t =
     (if aborted pg \<or> pg_fails pg (TableExistsQuery t)
      then pg\<lparr>aborted := aborted pg \<or> abort_on_error pg\<rparr> else pg,
      table_exists pg t)"
  by (simp add: table_exists_def table_exists_probe_def pg_query_def)

section \<open>Properties of the ordering resolver\<close>

lemma filter_valid_tables_eq:
  "filter_valid_tables cfg pg ts =
     filter (\<lambda>t. t \<notin> set (get_skip_tables cfg) \<and> \<not> is_view pg t \<and> table_exists pg t) ts"
  by (induction ts) auto



lemma priority_loop_rest_subset:
  "set (snd (priority_loop ps (ordered, valid))) \<subseteq> set valid"
proof (induction ps arbitrary: ordered valid)
  case Nil
  then show ?case by simp
next
  case (Cons p ps)
  show ?case
  proof (cases "p \<in> set valid")
    case True
    have "set (snd (priority_loop ps (ordered @ [p], remove1 p valid))) \<subseteq> set (remove1 p valid)"
      by (rule Cons.IH)
    then show ?thesis
      using True set_remove1_subset [of p valid] by auto
  next
    case False
    then show ?thesis using Cons.IH [of ordered valid] by simp
  qed
qed

lemma priority_loop_picked:
  "\<exists>picked. fst (priority_loop ps (ordered, valid)) = ordered @ picked
      \<and> set picked = set ps \<inter> set valid
      \<and> (distinct valid \<longrightarrow> distinct picked)"
proof (induction ps arbitrary: ordered valid)
  case Nil
  then show ?case by simp
next
  case (Cons p ps)
  show ?case
  proof (cases "p \<in> set valid")
    case True
    obtain picked where pk:
      "fst (priority_loop ps (ordered @ [p], remove1 p valid)) = (ordered @ [p]) @ picked"
      "set picked = set ps \<inter> set (remove1 p valid)"
      "distinct (remove1 p valid) \<longrightarrow> distinct picked"
      using Cons.IH [of "ordered @ [p]" "remove1 p valid"] by blast
    have a: "fst (priority_loop (p # ps) (ordered, valid)) = ordered @ (p # picked)"
      using True pk(1) by simp
    have b: "set (p # picked) = set (p # ps) \<inter> set valid"
    proof (rule set_eqI)
      fix q
      show "q \<in> set (p # picked) \<longleftrightarrow> q \<in> set (p # ps) \<inter> set valid"
      proof (cases "q = p")
        case True
        then show ?thesis using \<open>p \<in> set valid\<close> by simp
      next
        case False
        then show ?thesis using pk(2) in_set_remove1 [of q p valid] by simp
      qed
    qed
    have c: "distinct (p # picked)" if "distinct valid"
      using that pk(2,3) by simp
    show ?thesis using a b c by blast
  next
    case False
    then show ?thesis using Cons.IH [of ordered valid] by auto
  qed
qed


lemma order_tables_eq:
  "order_tables priority valid =
     fst (priority_loop priority ([], valid)) @ sort (snd (priority_loop priority ([], valid)))"
  by (simp add: order_tables_def split: prod.splits)

lemma set_order_tables_subset: "set (order_tables priority valid) \<subseteq> set valid"
proof -
  obtain picked where pk: "fst (priority_loop priority ([], valid)) = [] @ picked"
    "set picked = set priority \<inter> set valid"
    using priority_loop_picked [of priority "[]" valid] by blast
  have "set (snd (priority_loop priority ([], valid))) \<subseteq> set valid"
    by (rule priority_loop_rest_subset)
  then show ?thesis
    using pk by (auto simp: order_tables_eq)
qed




text \<open>
  C3, as amended. A candidate that is absent from the destination is dropped from the
  processing sequence whatever \<open>skip_missing_tables\<close> says: the resolver does not read the
  flag, so its result is the same for every value of it.
\<close>

theorem missing_table_always_dropped:
  assumes "\<not> table_exists pg t"
  shows "get_mysql_tables_ordered (cfg\<lparr>skip_missing_tables := flag\<rparr>) priority my pg
           = get_mysql_tables_ordered cfg priority my pg
         \<and> (\<forall>out. get_mysql_tables_ordered cfg priority my pg = Some out \<longrightarrow> t \<notin> set out)"
proof -
  have skip: "get_skip_tables (cfg\<lparr>skip_missing_tables := flag\<rparr>) = get_skip_tables cfg"
    by (simp add: get_skip_tables_def)
  have same: "filter_valid_tables (cfg\<lparr>skip_missing_tables := flag\<rparr>) pg ts
                = filter_valid_tables cfg pg ts" for ts
    by (simp add: filter_valid_tables_eq skip)
  have "t \<notin> set (order_tables priority (filter_valid_tables cfg pg ts))" for ts
    using assms set_order_tables_subset [of priority "filter_valid_tables cfg pg ts"]
    by (auto simp: filter_valid_tables_eq)
  then show ?thesis
    using same by (auto simp: get_mysql_tables_ordered_def split: option.splits)
qed

theorem missing_table_always_dropped_witness:
  "\<not> table_exists pg_one_table ''x_new''
   \<and> get_mysql_tables_ordered (cfg_keep_missing\<lparr>skip_missing_tables := Some True\<rparr>)
        [''x_user''] my_two_tables pg_one_table
      = get_mysql_tables_ordered cfg_keep_missing [''x_user''] my_two_tables pg_one_table
   \<and> get_mysql_tables_ordered cfg_keep_missing [''x_user''] my_two_tables pg_one_table
      = Some [''x_user'']
   \<and> ''x_new'' \<notin> set [''x_user'']"
proof -
  have h: "\<not> table_exists pg_one_table ''x_new''"
    by (simp add: table_exists_iff pg_one_table_def)
  have r: "get_mysql_tables_ordered cfg_keep_missing [''x_user''] my_two_tables pg_one_table
             = Some [''x_user'']"
    by (simp add: cfg_keep_missing_def MIGRATION_CONFIG_def get_skip_tables_def
        my_two_tables_def pg_one_table_def is_view_iff table_exists_iff
        get_mysql_tables_ordered_def show_tables_def order_tables_def)
  show ?thesis
    using h r missing_table_always_dropped [OF h, where cfg = cfg_keep_missing
        and flag = "Some True" and priority = "[''x_user'']" and my = my_two_tables]
    by simp
qed

text \<open>
  C3, as stated, fails: with \<open>skip_missing_tables\<close> disabled, a source table that is neither
  skipped nor a view, and that is absent from the destination, is dropped all the same.
\<close>

theorem missing_table_dropped_with_flag_disabled:
  "get_skip_missing_tables cfg_keep_missing = False
   \<and> ''x_new'' \<in> set (my_tables my_two_tables)
   \<and> ''x_new'' \<notin> set (get_skip_tables cfg_keep_missing)
   \<and> \<not> is_view pg_one_table ''x_new''
   \<and> \<not> table_exists pg_one_table ''x_new''
   \<and> get_mysql_tables_ordered cfg_keep_missing [''x_user''] my_two_tables pg_one_table
       = Some [''x_user'']"
  by (simp add: cfg_keep_missing_def MIGRATION_CONFIG_def get_skip_missing_tables_def
      get_skip_tables_def my_two_tables_def pg_one_table_def is_view_iff table_exists_iff
      get_mysql_tables_ordered_def show_tables_def order_tables_def)



section \<open>Properties of the connection operations\<close>

lemma apply_stmt_frame:
  "pg_base_tables (apply_stmt c s) = pg_base_tables c"
  "pg_views (apply_stmt c s) = pg_views c"
  "pg_fails (apply_stmt c s) = pg_fails c"
  "abort_on_error (apply_stmt c s) = abort_on_error c"
  "connect_fails (apply_stmt c s) = connect_fails c"
  "cascade (apply_stmt c s) = cascade c"
  "committed (apply_stmt c s) = committed c"
  "issued (apply_stmt c s) = issued c"
  "aborted (apply_stmt c s) = aborted c"
  by (cases s; simp)+

lemma pg_execute_frame:
  assumes "pg_execute c s = (c', ok)"
  shows "pg_base_tables c' = pg_base_tables c" "pg_views c' = pg_views c"
    "pg_fails c' = pg_fails c" "abort_on_error c' = abort_on_error c"
    "connect_fails c' = connect_fails c" "cascade c' = cascade c"
    "committed c' = committed c" "issued c' = issued c @ [s]"
    "ok \<Longrightarrow> \<not> aborted c'" "ok \<Longrightarrow> \<not> aborted c \<and> \<not> pg_fails c s"
    "\<not> ok \<Longrightarrow> aborted c \<or> pg_fails c s"
  using assms by (auto simp: pg_execute_def Let_def apply_stmt_frame split: if_splits)

lemma pg_commit_frame:
  assumes "pg_commit c = (c', ok)"
  shows "pg_base_tables c' = pg_base_tables c" "pg_views c' = pg_views c"
    "pg_fails c' = pg_fails c" "abort_on_error c' = abort_on_error c"
    "connect_fails c' = connect_fails c" "cascade c' = cascade c"
    "issued c' = issued c @ [Commit]"
    "ok \<Longrightarrow> \<not> aborted c' \<and> working c' = committed c'"
    "ok \<longleftrightarrow> \<not> pg_fails c Commit"
  using assms by (auto simp: pg_commit_def Let_def split: if_splits)

lemma pg_rollback_frame:
  assumes "pg_rollback c = (c', ok)"
  shows "pg_base_tables c' = pg_base_tables c" "pg_views c' = pg_views c"
    "pg_fails c' = pg_fails c" "abort_on_error c' = abort_on_error c"
    "connect_fails c' = connect_fails c" "cascade c' = cascade c"
    "committed c' = committed c" "issued c' = issued c @ [Rollback]"
    "ok \<Longrightarrow> \<not> aborted c' \<and> working c' = committed c'"
    "ok \<longleftrightarrow> \<not> pg_fails c Rollback"
  using assms by (auto simp: pg_rollback_def Let_def split: if_splits)

lemma pg_connect_frame:
  assumes "pg_connect c = Some c'"
  shows "pg_base_tables c' = pg_base_tables c" "pg_views c' = pg_views c"
    "pg_fails c' = pg_fails c" "abort_on_error c' = abort_on_error c"
    "connect_fails c' = connect_fails c" "cascade c' = cascade c"
    "committed c' = committed c" "issued c' = issued c"
    "\<not> aborted c'" "working c' = committed c'"
  using assms by (auto simp: pg_connect_def split: if_splits)

lemma truncate_targets_append:
  "truncate_targets (a @ b) = truncate_targets a @ truncate_targets b"
  by (induction a rule: truncate_targets.induct) simp_all

lemma missing_tables_append:
  "missing_tables (a @ b) = missing_tables a @ missing_tables b"
  by (induction a rule: missing_tables.induct) simp_all

section \<open>Properties of the destructive reset\<close>

text \<open>
  A property of the session that the statements of the reset keep is kept by the recovery
  and by the clearing of a table.
\<close>

lemma failed_clear_invariant:
  assumes p: "P c"
    and rb: "\<And>c c' ok. P c \<Longrightarrow> pg_rollback c = (c', ok) \<Longrightarrow> P c'"
    and cm: "\<And>c c' ok. P c \<Longrightarrow> pg_commit c = (c', ok) \<Longrightarrow> P c'"
    and cn: "\<And>c c'. P c \<Longrightarrow> pg_connect c = Some c' \<Longrightarrow> P c'"
  shows "P (rs_conn (failed_clear st t c))"
proof -
  obtain c1 ok1 where e1: "pg_rollback c = (c1, ok1)"
    by (metis prod.exhaust)
  obtain c2 ok2 where e2: "pg_rollback c1 = (c2, ok2)"
    by (metis prod.exhaust)
  obtain c3 ok3 where e3: "pg_commit c2 = (c3, ok3)"
    by (metis prod.exhaust)
  have p1: "P c1" using rb [OF p e1] .
  have p2: "P c2" using rb [OF p1 e2] .
  have p3: "P c3" using cm [OF p2 e3] .
  have r2: "P (rs_conn (case reopen c2 of
        Recovered c' \<Rightarrow> st\<lparr>rs_conn := c', rs_log := rs_log st @ [LogFailed t]\<rparr>
      | Reopened c' \<Rightarrow> st\<lparr>rs_conn := c', rs_log := rs_log st @ [LogFailed t, LogReconnect]\<rparr>
      | ConnectFailed c' \<Rightarrow>
          st\<lparr>rs_conn := c', rs_log := rs_log st @ [LogFailed t, LogReconnect], fatal := True\<rparr>))"
    using p2 cn [OF p2] by (cases "pg_connect c2") (simp_all add: reopen_def)
  have r3: "P (rs_conn (case reopen c3 of
        Recovered c' \<Rightarrow> st\<lparr>rs_conn := c', rs_log := rs_log st @ [LogFailed t]\<rparr>
      | Reopened c' \<Rightarrow> st\<lparr>rs_conn := c', rs_log := rs_log st @ [LogFailed t, LogReconnect]\<rparr>
      | ConnectFailed c' \<Rightarrow>
          st\<lparr>rs_conn := c', rs_log := rs_log st @ [LogFailed t, LogReconnect], fatal := True\<rparr>))"
    using p3 cn [OF p3] by (cases "pg_connect c3") (simp_all add: reopen_def)
  show ?thesis
    unfolding failed_clear_def recover_session_def
    using r2 r3 p3 by (cases ok2; cases ok3; simp add: e1 e2 e3 Let_def)
qed

lemma failed_clear_frame:
  "entered (failed_clear st t c) = entered st"
  "truncated_count (failed_clear st t c) = truncated_count st"
  "missing_tables (rs_log (failed_clear st t c)) = missing_tables (rs_log st)"
  "fatal st \<Longrightarrow> fatal (failed_clear st t c)"
  by (simp_all add: failed_clear_def missing_tables_append split: recovery.splits)

lemma failed_clear_healthy:
  assumes "\<not> fatal (failed_clear st t c)"
  shows "\<not> aborted (rs_conn (failed_clear st t c))"
    "working (rs_conn (failed_clear st t c)) = committed (rs_conn (failed_clear st t c))"
proof -
  obtain c1 ok1 where e1: "pg_rollback c = (c1, ok1)"
    by (metis prod.exhaust)
  obtain c2 ok2 where e2: "pg_rollback c1 = (c2, ok2)"
    by (metis prod.exhaust)
  obtain c3 ok3 where e3: "pg_commit c2 = (c3, ok3)"
    by (metis prod.exhaust)
  note f2 = pg_rollback_frame [OF e2] and f3 = pg_commit_frame [OF e3]
  have h: "\<not> aborted (rs_conn (failed_clear st t c))
      \<and> working (rs_conn (failed_clear st t c)) = committed (rs_conn (failed_clear st t c))"
  proof (cases "ok2 \<and> ok3")
    case True
    then have "failed_clear st t c = st\<lparr>rs_conn := c3, rs_log := rs_log st @ [LogFailed t]\<rparr>"
      by (simp add: failed_clear_def recover_session_def e1 e2 e3 Let_def)
    then show ?thesis using f3(8) True by simp
  next
    case False
    define c4 where "c4 = (if ok2 then c3 else c2)"
    have r: "recover_session c = reopen c4"
      using False by (cases ok2; cases ok3; simp add: recover_session_def e1 e2 e3 Let_def c4_def)
    from assms obtain c5 where c5: "pg_connect c4 = Some c5"
      by (cases "pg_connect c4") (simp_all add: failed_clear_def r reopen_def)
    then have "rs_conn (failed_clear st t c) = c5"
      by (simp add: failed_clear_def r reopen_def)
    then show ?thesis using pg_connect_frame(9,10) [OF c5] by simp
  qed
  show "\<not> aborted (rs_conn (failed_clear st t c))"
    "working (rs_conn (failed_clear st t c)) = committed (rs_conn (failed_clear st t c))"
    using h by simp_all
qed

lemma failed_clear_cong:
  "rs_conn (failed_clear st t c) = rs_conn (failed_clear st' t c)"
  "fatal st = fatal st' \<Longrightarrow> fatal (failed_clear st t c) = fatal (failed_clear st' t c)"
  by (simp_all add: failed_clear_def split: recovery.splits)

lemma clear_table_eq:
  assumes e1: "pg_execute (rs_conn st) (SetReplicationRole ''replica'') = (c1, ok1)"
    and e2: "pg_execute c1 (TruncateCascade t) = (c2, ok2)"
    and e3: "pg_execute c2 (SetReplicationRole ''origin'') = (c3, ok3)"
    and e4: "pg_commit c3 = (c4, ok4)"
  shows "clear_table st t =
     (if \<not> ok1 then failed_clear st t c1
      else if \<not> ok2 then failed_clear st t c2
      else if \<not> ok3 then
        failed_clear (st\<lparr>truncated_count := truncated_count st + 1,
                         rs_log := rs_log st @ [LogCleared t]\<rparr>) t c3
      else if \<not> ok4 then
        failed_clear (st\<lparr>truncated_count := truncated_count st + 1,
                         rs_log := rs_log st @ [LogCleared t]\<rparr>) t c4
      else st\<lparr>truncated_count := truncated_count st + 1,
              rs_log := rs_log st @ [LogCleared t], rs_conn := c4\<rparr>)"
  unfolding clear_table_def e1 by (cases ok1; cases ok2; cases ok3; cases ok4; simp add: e2 e3 e4 Let_def)

lemma clear_table_invariant:
  assumes p: "P (rs_conn st)"
    and ex: "\<And>c s c' ok. P c \<Longrightarrow> s = SetReplicationRole ''replica'' \<or> s = TruncateCascade t
                  \<or> s = SetReplicationRole ''origin'' \<Longrightarrow> pg_execute c s = (c', ok) \<Longrightarrow> P c'"
    and rb: "\<And>c c' ok. P c \<Longrightarrow> pg_rollback c = (c', ok) \<Longrightarrow> P c'"
    and cm: "\<And>c c' ok. P c \<Longrightarrow> pg_commit c = (c', ok) \<Longrightarrow> P c'"
    and cn: "\<And>c c'. P c \<Longrightarrow> pg_connect c = Some c' \<Longrightarrow> P c'"
  shows "P (rs_conn (clear_table st t))"
proof -
  obtain c1 ok1 where e1: "pg_execute (rs_conn st) (SetReplicationRole ''replica'') = (c1, ok1)"
    by (metis prod.exhaust)
  obtain c2 ok2 where e2: "pg_execute c1 (TruncateCascade t) = (c2, ok2)"
    by (metis prod.exhaust)
  obtain c3 ok3 where e3: "pg_execute c2 (SetReplicationRole ''origin'') = (c3, ok3)"
    by (metis prod.exhaust)
  obtain c4 ok4 where e4: "pg_commit c3 = (c4, ok4)"
    by (metis prod.exhaust)
  have p1: "P c1" using ex [OF p _ e1] by simp
  have p2: "P c2" using ex [OF p1 _ e2] by simp
  have p3: "P c3" using ex [OF p2 _ e3] by simp
  have p4: "P c4" using cm [OF p3 e4] .
  have fc: "P (rs_conn (failed_clear s u d))" if pd: "P d" for s u d
  proof (rule failed_clear_invariant [where P = P])
    show "P d" by (fact pd)
  qed (blast intro: rb cm cn)+
  show ?thesis
    unfolding clear_table_eq [OF e1 e2 e3 e4]
    using fc [OF p1] fc [OF p2] fc [OF p3] fc [OF p4] p4 by simp
qed

lemma clear_table_frame:
  fixes st t
  defines "c \<equiv> rs_conn st"
  defines "r \<equiv> clear_table st t"
  shows "entered r = entered st"
    "missing_tables (rs_log r) = missing_tables (rs_log st)"
    "\<not> fatal r \<Longrightarrow> \<not> aborted (rs_conn r)"
    "\<not> fatal r \<Longrightarrow> working (rs_conn r) = committed (rs_conn r)"
    "truncate_targets (issued (rs_conn r)) = truncate_targets (issued c)
        @ (if \<not> aborted c \<and> \<not> pg_fails c (SetReplicationRole ''replica'') then [t] else [])"
proof -
  obtain c1 ok1 where e1: "pg_execute (rs_conn st) (SetReplicationRole ''replica'') = (c1, ok1)"
    by (metis prod.exhaust)
  obtain c2 ok2 where e2: "pg_execute c1 (TruncateCascade t) = (c2, ok2)"
    by (metis prod.exhaust)
  obtain c3 ok3 where e3: "pg_execute c2 (SetReplicationRole ''origin'') = (c3, ok3)"
    by (metis prod.exhaust)
  obtain c4 ok4 where e4: "pg_commit c3 = (c4, ok4)"
    by (metis prod.exhaust)
  note f1 = pg_execute_frame [OF e1] and f2 = pg_execute_frame [OF e2]
    and f3 = pg_execute_frame [OF e3] and f4 = pg_commit_frame [OF e4]
  note r = clear_table_eq [OF e1 e2 e3 e4, folded r_def]
  have ok1: "ok1 \<longleftrightarrow> \<not> aborted c \<and> \<not> pg_fails c (SetReplicationRole ''replica'')"
    using f1(10,11) unfolding c_def by blast
  have t1: "truncate_targets (issued c1) = truncate_targets (issued c)"
    by (simp add: f1(8) truncate_targets_append c_def)
  have t2: "truncate_targets (issued c2) = truncate_targets (issued c) @ [t]"
    by (simp add: f2(8) t1 truncate_targets_append)
  have t3: "truncate_targets (issued c3) = truncate_targets (issued c) @ [t]"
    by (simp add: f3(8) t2 truncate_targets_append)
  have t4: "truncate_targets (issued c4) = truncate_targets (issued c) @ [t]"
    by (simp add: f4(7) t3 truncate_targets_append)
  have tt: "truncate_targets (issued (rs_conn (failed_clear s u d))) = truncate_targets (issued d)"
    for s u d
    by (rule failed_clear_invariant
          [where P = "\<lambda>x. truncate_targets (issued x) = truncate_targets (issued d)"])
      (simp_all add: pg_rollback_frame pg_commit_frame pg_connect_frame truncate_targets_append)
  show "entered r = entered st"
    by (simp add: r failed_clear_frame)
  show "missing_tables (rs_log r) = missing_tables (rs_log st)"
    by (simp add: r failed_clear_frame missing_tables_append)
  show "\<not> aborted (rs_conn r)" if "\<not> fatal r"
    using that f4(8) by (simp add: r failed_clear_healthy split: if_splits)
  show "working (rs_conn r) = committed (rs_conn r)" if "\<not> fatal r"
    using that f4(8) by (simp add: r failed_clear_healthy split: if_splits)
  show "truncate_targets (issued (rs_conn r)) = truncate_targets (issued c)
        @ (if \<not> aborted c \<and> \<not> pg_fails c (SetReplicationRole ''replica'') then [t] else [])"
    using ok1 by (simp add: r tt t1 t2 t3 t4)
qed

lemma clear_table_cong:
  assumes "rs_conn st = rs_conn st'" "truncated_count st = truncated_count st'"
    "fatal st = fatal st'"
  shows "rs_conn (clear_table st t) = rs_conn (clear_table st' t)"
    "truncated_count (clear_table st t) = truncated_count (clear_table st' t)"
    "fatal (clear_table st t) = fatal (clear_table st' t)"
proof -
  obtain c1 ok1 where e1: "pg_execute (rs_conn st) (SetReplicationRole ''replica'') = (c1, ok1)"
    by (metis prod.exhaust)
  obtain c2 ok2 where e2: "pg_execute c1 (TruncateCascade t) = (c2, ok2)"
    by (metis prod.exhaust)
  obtain c3 ok3 where e3: "pg_execute c2 (SetReplicationRole ''origin'') = (c3, ok3)"
    by (metis prod.exhaust)
  obtain c4 ok4 where e4: "pg_commit c3 = (c4, ok4)"
    by (metis prod.exhaust)
  note r = clear_table_eq [OF e1 e2 e3 e4]
  note r' = clear_table_eq [OF e1 [unfolded assms(1)] e2 e3 e4]
  show "rs_conn (clear_table st t) = rs_conn (clear_table st' t)"
    unfolding r r'
    by (cases ok1; cases ok2; cases ok3; cases ok4; simp; rule failed_clear_cong(1))
  show "truncated_count (clear_table st t) = truncated_count (clear_table st' t)"
    by (simp add: r r' failed_clear_frame assms(2))
  show "fatal (clear_table st t) = fatal (clear_table st' t)"
    unfolding r r'
    by (cases ok1; cases ok2; cases ok3; cases ok4; simp add: assms(3);
        rule failed_clear_cong(2); simp add: assms(3))
qed

lemma truncate_step_eq:
  "truncate_step cfg st t =
     (if table_exists (rs_conn st) t
      then clear_table (st\<lparr>entered := entered st @ [t]\<rparr>) t
      else st\<lparr>rs_conn := fst (table_exists_probe (rs_conn st) t),
              rs_log := rs_log st @ [if get_skip_missing_tables cfg then LogSkipMissing t
                                     else LogWarnMissing t]\<rparr>)"
proof (cases "table_exists (rs_conn st) t")
  case True
  then have "table_exists_probe (rs_conn st) t = (rs_conn st, True)"
    by (simp add: table_exists_probe_eq) (simp add: table_exists_iff)
  then show ?thesis using True by (simp add: truncate_step_def)
next
  case False
  obtain c' where e: "table_exists_probe (rs_conn st) t = (c', False)"
    using False by (simp add: table_exists_probe_eq)
  show ?thesis using False by (simp add: truncate_step_def e)
qed

lemma truncate_step_invariant:
  assumes p: "P (rs_conn st)"
    and ab: "\<And>c b. P c \<Longrightarrow> P (c\<lparr>aborted := b\<rparr>)"
    and ex: "\<And>c s c' ok. P c \<Longrightarrow> s = SetReplicationRole ''replica'' \<or> s = TruncateCascade t
                  \<or> s = SetReplicationRole ''origin'' \<Longrightarrow> pg_execute c s = (c', ok) \<Longrightarrow> P c'"
    and rb: "\<And>c c' ok. P c \<Longrightarrow> pg_rollback c = (c', ok) \<Longrightarrow> P c'"
    and cm: "\<And>c c' ok. P c \<Longrightarrow> pg_commit c = (c', ok) \<Longrightarrow> P c'"
    and cn: "\<And>c c'. P c \<Longrightarrow> pg_connect c = Some c' \<Longrightarrow> P c'"
  shows "P (rs_conn (truncate_step cfg st t))"
proof (cases "table_exists (rs_conn st) t")
  case True
  have "P (rs_conn (clear_table (st\<lparr>entered := entered st @ [t]\<rparr>) t))"
  proof (rule clear_table_invariant [where P = P])
    show "P (rs_conn (st\<lparr>entered := entered st @ [t]\<rparr>))" using p by simp
  qed (blast intro: ex rb cm cn)+
  then show ?thesis using True by (simp add: truncate_step_eq)
next
  case False
  have "P (fst (table_exists_probe (rs_conn st) t))"
    using p ab [OF p] by (simp add: table_exists_probe_eq)
  then show ?thesis using False by (simp add: truncate_step_eq)
qed

lemma truncate_step_stable:
  fixes cfg st t
  defines "c \<equiv> rs_conn st"
  defines "r \<equiv> truncate_step cfg st t"
  shows "pg_base_tables (rs_conn r) = pg_base_tables c" "pg_views (rs_conn r) = pg_views c"
    "pg_fails (rs_conn r) = pg_fails c" "abort_on_error (rs_conn r) = abort_on_error c"
    "connect_fails (rs_conn r) = connect_fails c" "cascade (rs_conn r) = cascade c"
proof -
  have "pg_base_tables (rs_conn r) = pg_base_tables c \<and> pg_views (rs_conn r) = pg_views c
      \<and> pg_fails (rs_conn r) = pg_fails c \<and> abort_on_error (rs_conn r) = abort_on_error c
      \<and> connect_fails (rs_conn r) = connect_fails c \<and> cascade (rs_conn r) = cascade c"
    unfolding r_def
    by (rule truncate_step_invariant
          [where P = "\<lambda>x. pg_base_tables x = pg_base_tables c \<and> pg_views x = pg_views c
              \<and> pg_fails x = pg_fails c \<and> abort_on_error x = abort_on_error c
              \<and> connect_fails x = connect_fails c \<and> cascade x = cascade c"])
      (simp_all add: c_def pg_execute_frame pg_rollback_frame pg_commit_frame pg_connect_frame)
  then show "pg_base_tables (rs_conn r) = pg_base_tables c" "pg_views (rs_conn r) = pg_views c"
    "pg_fails (rs_conn r) = pg_fails c" "abort_on_error (rs_conn r) = abort_on_error c"
    "connect_fails (rs_conn r) = connect_fails c" "cascade (rs_conn r) = cascade c"
    by simp_all
qed

lemma truncate_step_frame:
  fixes cfg st t
  defines "c \<equiv> rs_conn st"
  defines "r \<equiv> truncate_step cfg st t"
  shows "entered r = entered st @ (if table_exists c t then [t] else [])"
    "missing_tables (rs_log r) = missing_tables (rs_log st) @ (if table_exists c t then [] else [t])"
    "truncate_targets (issued (rs_conn r)) = truncate_targets (issued c)
       @ (if table_exists c t \<and> \<not> pg_fails c (SetReplicationRole ''replica'') then [t] else [])"
proof -
  have i: "issued (fst (table_exists_probe c t)) = issued c"
    by (simp add: table_exists_probe_eq)
  have na: "\<not> aborted c" if "table_exists c t"
    using that by (simp add: table_exists_iff)
  show "entered r = entered st @ (if table_exists c t then [t] else [])"
    by (simp add: r_def c_def truncate_step_eq clear_table_frame)
  show "missing_tables (rs_log r) = missing_tables (rs_log st) @ (if table_exists c t then [] else [t])"
    by (simp add: r_def c_def truncate_step_eq clear_table_frame missing_tables_append)
  show "truncate_targets (issued (rs_conn r)) = truncate_targets (issued c)
       @ (if table_exists c t \<and> \<not> pg_fails c (SetReplicationRole ''replica'') then [t] else [])"
    using i na by (simp add: r_def c_def truncate_step_eq clear_table_frame)
qed

lemma table_exists_eqI:
  assumes "pg_base_tables c' = pg_base_tables c" "pg_views c' = pg_views c"
    "pg_fails c' = pg_fails c" "aborted c' = aborted c"
  shows "table_exists c' = table_exists c"
  by (rule ext) (simp add: table_exists_iff assms)

lemma table_exists_aborted: "aborted c \<Longrightarrow> table_exists c = (\<lambda>_. False)"
  by (rule ext) (simp add: table_exists_iff)

lemma truncate_step_table_exists:
  fixes cfg st t
  defines "c \<equiv> rs_conn st"
  defines "r \<equiv> truncate_step cfg st t"
  assumes nf: "\<not> fatal r"
  shows "table_exists (rs_conn r) = table_exists c \<or> table_exists (rs_conn r) = (\<lambda>_. False)"
    "\<not> pg_fails c (TableExistsQuery t) \<Longrightarrow> table_exists (rs_conn r) = table_exists c"
proof -
  note s = truncate_step_stable [where cfg = cfg and st = st and t = t, folded r_def c_def]
  have a: "table_exists (rs_conn r) = table_exists c" if "aborted (rs_conn r) = aborted c"
    using that by (intro table_exists_eqI s)
  have b: "table_exists (rs_conn r) = (\<lambda>_. False)" if "aborted (rs_conn r)"
    using that by (rule table_exists_aborted)
  have e: "aborted (rs_conn r) = aborted c" if "table_exists c t"
  proof -
    have r: "r = clear_table (st\<lparr>entered := entered st @ [t]\<rparr>) t"
      using that by (simp add: r_def c_def truncate_step_eq)
    have "\<not> aborted (rs_conn r)"
      using nf unfolding r by (rule clear_table_frame)
    moreover have "\<not> aborted c" using that by (simp add: table_exists_iff)
    ultimately show ?thesis by simp
  qed
  have m: "aborted (rs_conn r) = (if aborted c \<or> pg_fails c (TableExistsQuery t)
        then aborted c \<or> abort_on_error c else aborted c)" if "\<not> table_exists c t"
    using that by (simp add: r_def c_def truncate_step_eq table_exists_probe_eq)
  show "table_exists (rs_conn r) = table_exists c \<or> table_exists (rs_conn r) = (\<lambda>_. False)"
  proof (cases "table_exists c t")
    case True
    then show ?thesis using a e by simp
  next
    case False
    show ?thesis
    proof (cases "aborted (rs_conn r)")
      case True
      then show ?thesis using b by simp
    next
      case na: False
      then have "aborted (rs_conn r) = aborted c"
        using m [OF False] by (simp split: if_splits)
      then show ?thesis using a by simp
    qed
  qed
  show "table_exists (rs_conn r) = table_exists c" if "\<not> pg_fails c (TableExistsQuery t)"
  proof (cases "table_exists c t")
    case True
    then show ?thesis using a e by simp
  next
    case False
    show ?thesis
    proof (cases "aborted c")
      case True
      then have "aborted (rs_conn r)" using m [OF False] by simp
      then show ?thesis using b True table_exists_aborted [of c] by simp
    next
      case na: False
      then have "aborted (rs_conn r) = aborted c"
        using m [OF False] that by simp
      then show ?thesis using a by simp
    qed
  qed
qed

lemma truncate_step_cong:
  assumes "rs_conn st = rs_conn st'" "truncated_count st = truncated_count st'"
    "fatal st = fatal st'"
  shows "rs_conn (truncate_step cfg st t) = rs_conn (truncate_step cfg' st' t)"
    "truncated_count (truncate_step cfg st t) = truncated_count (truncate_step cfg' st' t)"
    "fatal (truncate_step cfg st t) = fatal (truncate_step cfg' st' t)"
proof -
  have a: "rs_conn (clear_table (st\<lparr>entered := entered st @ [t]\<rparr>) t)
      = rs_conn (clear_table (st'\<lparr>entered := entered st' @ [t]\<rparr>) t)"
    by (rule clear_table_cong) (simp_all add: assms)
  have b: "truncated_count (clear_table (st\<lparr>entered := entered st @ [t]\<rparr>) t)
      = truncated_count (clear_table (st'\<lparr>entered := entered st' @ [t]\<rparr>) t)"
    by (rule clear_table_cong) (simp_all add: assms)
  have c: "fatal (clear_table (st\<lparr>entered := entered st @ [t]\<rparr>) t)
      = fatal (clear_table (st'\<lparr>entered := entered st' @ [t]\<rparr>) t)"
    by (rule clear_table_cong) (simp_all add: assms)
  show "rs_conn (truncate_step cfg st t) = rs_conn (truncate_step cfg' st' t)"
    using a assms by (simp add: truncate_step_eq)
  show "truncated_count (truncate_step cfg st t) = truncated_count (truncate_step cfg' st' t)"
    using b assms by (simp add: truncate_step_eq)
  show "fatal (truncate_step cfg st t) = fatal (truncate_step cfg' st' t)"
    using c assms by (simp add: truncate_step_eq)
qed


lemma truncate_loop_prefix:
  "\<exists>k. entered (truncate_loop cfg st ts)
         = entered st @ filter (table_exists (rs_conn st)) (take k ts)
       \<and> truncate_targets (issued (rs_conn (truncate_loop cfg st ts)))
         = truncate_targets (issued (rs_conn st))
           @ filter (\<lambda>t. table_exists (rs_conn st) t
                        \<and> \<not> pg_fails (rs_conn st) (SetReplicationRole ''replica'')) (take k ts)"
proof (induction ts arbitrary: st)
  case Nil
  then show ?case by simp
next
  case (Cons t ts)
  define st' where "st' = truncate_step cfg st t"
  note f = truncate_step_frame [where cfg = cfg and st = st and t = t, folded st'_def]
  note s = truncate_step_stable [where cfg = cfg and st = st and t = t, folded st'_def]
  have one: "entered st' = entered st @ filter (table_exists (rs_conn st)) (take 1 (t # ts))
       \<and> truncate_targets (issued (rs_conn st'))
         = truncate_targets (issued (rs_conn st))
           @ filter (\<lambda>t. table_exists (rs_conn st) t
                        \<and> \<not> pg_fails (rs_conn st) (SetReplicationRole ''replica''))
               (take 1 (t # ts))"
    by (simp add: f)
  show ?case
  proof (cases "fatal st'")
    case True
    then have "truncate_loop cfg st (t # ts) = st'"
      by (simp add: st'_def Let_def)
    then show ?thesis using one by (metis (lifting))
  next
    case False
    then have r: "truncate_loop cfg st (t # ts) = truncate_loop cfg st' ts"
      by (simp add: st'_def Let_def)
    from Cons.IH [of st'] obtain k where
      k: "entered (truncate_loop cfg st' ts)
            = entered st' @ filter (table_exists (rs_conn st')) (take k ts)"
        "truncate_targets (issued (rs_conn (truncate_loop cfg st' ts)))
           = truncate_targets (issued (rs_conn st'))
             @ filter (\<lambda>t. table_exists (rs_conn st') t
                  \<and> \<not> pg_fails (rs_conn st') (SetReplicationRole ''replica'')) (take k ts)"
      by blast
    from truncate_step_table_exists(1) [where cfg = cfg and st = st and t = t, folded st'_def,
        OF False]
    show ?thesis
    proof
      assume e: "table_exists (rs_conn st') = table_exists (rs_conn st)"
      have "entered (truncate_loop cfg st (t # ts))
             = entered st @ filter (table_exists (rs_conn st)) (take (Suc k) (t # ts))
           \<and> truncate_targets (issued (rs_conn (truncate_loop cfg st (t # ts))))
             = truncate_targets (issued (rs_conn st))
               @ filter (\<lambda>t. table_exists (rs_conn st) t
                    \<and> \<not> pg_fails (rs_conn st) (SetReplicationRole ''replica''))
                   (take (Suc k) (t # ts))"
        unfolding r k by (simp add: e s(3) f)
      then show ?thesis by (rule exI)
    next
      assume e: "table_exists (rs_conn st') = (\<lambda>_. False)"
      have "entered (truncate_loop cfg st (t # ts)) = entered st'
          \<and> truncate_targets (issued (rs_conn (truncate_loop cfg st (t # ts))))
             = truncate_targets (issued (rs_conn st'))"
        unfolding r k by (simp add: e)
      then show ?thesis using one by (metis (lifting))
    qed
  qed
qed


lemma truncate_loop_cong:
  assumes "rs_conn st = rs_conn st'" "truncated_count st = truncated_count st'"
    "fatal st = fatal st'" "entered st = entered st'"
    "missing_tables (rs_log st) = missing_tables (rs_log st')"
  shows "rs_conn (truncate_loop cfg st ts) = rs_conn (truncate_loop cfg' st' ts)
       \<and> truncated_count (truncate_loop cfg st ts) = truncated_count (truncate_loop cfg' st' ts)
       \<and> fatal (truncate_loop cfg st ts) = fatal (truncate_loop cfg' st' ts)
       \<and> entered (truncate_loop cfg st ts) = entered (truncate_loop cfg' st' ts)
       \<and> missing_tables (rs_log (truncate_loop cfg st ts))
           = missing_tables (rs_log (truncate_loop cfg' st' ts))"
  using assms
proof (induction ts arbitrary: st st')
  case Nil
  then show ?case by simp
next
  case (Cons t ts)
  note c = truncate_step_cong [OF Cons.prems(1,2,3), where cfg = cfg and t = t and cfg' = cfg']
  note f = truncate_step_frame [where cfg = cfg and st = st and t = t]
  note f' = truncate_step_frame [where cfg = cfg' and st = st' and t = t]
  have e: "entered (truncate_step cfg st t) = entered (truncate_step cfg' st' t)"
    by (simp add: f f' Cons.prems)
  have m: "missing_tables (rs_log (truncate_step cfg st t))
      = missing_tables (rs_log (truncate_step cfg' st' t))"
    by (simp add: f f' Cons.prems)
  show ?case
  proof (cases "fatal (truncate_step cfg st t)")
    case True
    then show ?thesis using c e m by (simp add: Let_def)
  next
    case False
    then show ?thesis using c Cons.IH [OF c e m] by (simp add: Let_def)
  qed
qed



lemmas reset_eval =
  truncate_postgres_tables_def truncate_step_def clear_table_def failed_clear_def
  recover_session_def reopen_def pg_connect_def pg_execute_def pg_commit_def pg_rollback_def
  table_exists_probe_def pg_query_def get_skip_missing_tables_def Let_def


text \<open>
  An existing table of the priority list is skipped when an earlier existence probe raised
  (the failed transaction is never rolled back, so every later probe answers \<open>False\<close>), and
  it is not visited at all when the reconnect of the error handler raises.
\<close>

lemma existing_table_skipped:
  "table_exists pg_probe_fails ''x_user''
   \<and> entered (truncate_postgres_tables MIGRATION_CONFIG [''x_user'', ''x_role''] pg_probe_fails)
       = []
   \<and> missing_tables (rs_log
        (truncate_postgres_tables MIGRATION_CONFIG [''x_user'', ''x_role''] pg_probe_fails))
       = [''x_role'', ''x_user'']
   \<and> \<not> fatal (truncate_postgres_tables MIGRATION_CONFIG [''x_user'', ''x_role'']
        pg_probe_fails)
   \<and> table_exists pg_no_reconnect ''x_user''
   \<and> entered (truncate_postgres_tables MIGRATION_CONFIG [''x_user'', ''x_role''] pg_no_reconnect)
       = [''x_role'']
   \<and> missing_tables (rs_log
        (truncate_postgres_tables MIGRATION_CONFIG [''x_user'', ''x_role''] pg_no_reconnect))
       = []
   \<and> fatal (truncate_postgres_tables MIGRATION_CONFIG [''x_user'', ''x_role''] pg_no_reconnect)"
proof -
  have a: "table_exists pg_probe_fails ''x_user''" "table_exists pg_no_reconnect ''x_user''"
    by (simp_all add: table_exists_iff pg_probe_fails_def pg_no_reconnect_def)
  have b: "entered (truncate_postgres_tables MIGRATION_CONFIG [''x_user'', ''x_role'']
        pg_probe_fails) = []"
    by (simp add: reset_eval pg_probe_fails_def MIGRATION_CONFIG_def)
  have c: "missing_tables (rs_log
        (truncate_postgres_tables MIGRATION_CONFIG [''x_user'', ''x_role''] pg_probe_fails))
       = [''x_role'', ''x_user'']"
    by (simp add: reset_eval pg_probe_fails_def MIGRATION_CONFIG_def)
  have d: "\<not> fatal (truncate_postgres_tables MIGRATION_CONFIG [''x_user'', ''x_role'']
        pg_probe_fails)"
    by (simp add: reset_eval pg_probe_fails_def MIGRATION_CONFIG_def)
  have e: "entered (truncate_postgres_tables MIGRATION_CONFIG [''x_user'', ''x_role'']
        pg_no_reconnect) = [''x_role'']"
    by (simp add: reset_eval pg_no_reconnect_def MIGRATION_CONFIG_def)
  have f: "missing_tables (rs_log
        (truncate_postgres_tables MIGRATION_CONFIG [''x_user'', ''x_role''] pg_no_reconnect))
       = []"
    by (simp add: reset_eval pg_no_reconnect_def MIGRATION_CONFIG_def)
  have g: "fatal (truncate_postgres_tables MIGRATION_CONFIG [''x_user'', ''x_role'']
        pg_no_reconnect)"
    by (simp add: reset_eval pg_no_reconnect_def MIGRATION_CONFIG_def)
  show ?thesis using a b c d e f g by simp
qed


text \<open>
  C10. Two runs of the reset that differ only in \<open>skip_missing_tables\<close> leave the same
  connection (the same statements sent, the same data), log the same count of cleared
  tables, start clearing the same tables, report the same tables missing and end in the same
  way; only the wording of the message for a missing table differs. A missing table is never
  cleared.
\<close>

theorem reset_independent_of_skip_missing_tables:
  "rs_conn (truncate_postgres_tables (cfg\<lparr>skip_missing_tables := flag\<rparr>) priority pg)
      = rs_conn (truncate_postgres_tables cfg priority pg)
   \<and> truncated_count (truncate_postgres_tables (cfg\<lparr>skip_missing_tables := flag\<rparr>) priority pg)
      = truncated_count (truncate_postgres_tables cfg priority pg)
   \<and> entered (truncate_postgres_tables (cfg\<lparr>skip_missing_tables := flag\<rparr>) priority pg)
      = entered (truncate_postgres_tables cfg priority pg)
   \<and> missing_tables (rs_log (truncate_postgres_tables (cfg\<lparr>skip_missing_tables := flag\<rparr>)
        priority pg))
      = missing_tables (rs_log (truncate_postgres_tables cfg priority pg))
   \<and> fatal (truncate_postgres_tables (cfg\<lparr>skip_missing_tables := flag\<rparr>) priority pg)
      = fatal (truncate_postgres_tables cfg priority pg)
   \<and> (\<forall>t. \<not> table_exists pg t \<and> t \<notin> set (truncate_targets (issued pg)) \<longrightarrow>
          t \<notin> set (entered (truncate_postgres_tables cfg priority pg))
          \<and> t \<notin> set (truncate_targets
                (issued (rs_conn (truncate_postgres_tables cfg priority pg)))))"
proof -
  let ?st = "\<lparr>rs_conn = pg, truncated_count = 0, entered = [], rs_log = [], fatal = False\<rparr>"
  let ?cfg' = "cfg\<lparr>skip_missing_tables := flag\<rparr>"
  have g: "rs_conn (truncate_loop ?cfg' ?st (rev priority))
            = rs_conn (truncate_loop cfg ?st (rev priority))
         \<and> truncated_count (truncate_loop ?cfg' ?st (rev priority))
            = truncated_count (truncate_loop cfg ?st (rev priority))
         \<and> fatal (truncate_loop ?cfg' ?st (rev priority))
            = fatal (truncate_loop cfg ?st (rev priority))
         \<and> entered (truncate_loop ?cfg' ?st (rev priority))
            = entered (truncate_loop cfg ?st (rev priority))
         \<and> missing_tables (rs_log (truncate_loop ?cfg' ?st (rev priority)))
            = missing_tables (rs_log (truncate_loop cfg ?st (rev priority)))"
    by (rule truncate_loop_cong) simp_all
  obtain k where k: "entered (truncate_loop cfg ?st (rev priority))
         = entered ?st @ filter (table_exists (rs_conn ?st)) (take k (rev priority))"
      "truncate_targets (issued (rs_conn (truncate_loop cfg ?st (rev priority))))
         = truncate_targets (issued (rs_conn ?st))
           @ filter (\<lambda>t. table_exists (rs_conn ?st) t
                        \<and> \<not> pg_fails (rs_conn ?st) (SetReplicationRole ''replica''))
               (take k (rev priority))"
    using truncate_loop_prefix [of cfg ?st "rev priority"] by blast
  have d: "t \<notin> set (entered (truncate_postgres_tables cfg priority pg))
          \<and> t \<notin> set (truncate_targets
                (issued (rs_conn (truncate_postgres_tables cfg priority pg))))"
    if "\<not> table_exists pg t \<and> t \<notin> set (truncate_targets (issued pg))" for t
    using that unfolding truncate_postgres_tables_def k by simp
  show ?thesis using g d unfolding truncate_postgres_tables_def by blast
qed

theorem reset_independent_of_skip_missing_tables_witness:
  "\<not> table_exists pg_reset ''x_group'' \<and> ''x_group'' \<notin> set (truncate_targets (issued pg_reset))
   \<and> get_skip_missing_tables cfg_keep_missing = False
   \<and> get_skip_missing_tables (cfg_keep_missing\<lparr>skip_missing_tables := Some True\<rparr>) = True
   \<and> rs_conn (truncate_postgres_tables (cfg_keep_missing\<lparr>skip_missing_tables := Some True\<rparr>)
        [''x_user'', ''x_group'', ''x_role''] pg_reset)
      = rs_conn (truncate_postgres_tables cfg_keep_missing
          [''x_user'', ''x_group'', ''x_role''] pg_reset)
   \<and> truncated_count (truncate_postgres_tables (cfg_keep_missing\<lparr>skip_missing_tables := Some True\<rparr>)
        [''x_user'', ''x_group'', ''x_role''] pg_reset) = 1
   \<and> truncated_count (truncate_postgres_tables cfg_keep_missing
        [''x_user'', ''x_group'', ''x_role''] pg_reset) = 1
   \<and> rs_log (truncate_postgres_tables cfg_keep_missing
        [''x_user'', ''x_group'', ''x_role''] pg_reset)
      = [LogFailed ''x_role'', LogWarnMissing ''x_group'', LogCleared ''x_user'']
   \<and> rs_log (truncate_postgres_tables (cfg_keep_missing\<lparr>skip_missing_tables := Some True\<rparr>)
        [''x_user'', ''x_group'', ''x_role''] pg_reset)
      = [LogFailed ''x_role'', LogSkipMissing ''x_group'', LogCleared ''x_user'']
   \<and> ''x_group'' \<notin> set (entered (truncate_postgres_tables cfg_keep_missing
        [''x_user'', ''x_group'', ''x_role''] pg_reset))
   \<and> ''x_group'' \<notin> set (truncate_targets (issued (rs_conn (truncate_postgres_tables
        cfg_keep_missing [''x_user'', ''x_group'', ''x_role''] pg_reset))))"
proof -
  have h: "\<not> table_exists pg_reset ''x_group''"
    "''x_group'' \<notin> set (truncate_targets (issued pg_reset))"
    "get_skip_missing_tables cfg_keep_missing = False"
    "get_skip_missing_tables (cfg_keep_missing\<lparr>skip_missing_tables := Some True\<rparr>) = True"
    by (simp_all add: table_exists_iff pg_reset_def cfg_keep_missing_def MIGRATION_CONFIG_def
        get_skip_missing_tables_def)
  have n: "truncated_count (truncate_postgres_tables cfg_keep_missing
        [''x_user'', ''x_group'', ''x_role''] pg_reset) = 1"
    by (simp add: reset_eval pg_reset_def cfg_keep_missing_def MIGRATION_CONFIG_def)
  have l: "rs_log (truncate_postgres_tables cfg_keep_missing
        [''x_user'', ''x_group'', ''x_role''] pg_reset)
      = [LogFailed ''x_role'', LogWarnMissing ''x_group'', LogCleared ''x_user'']"
    by (simp add: reset_eval pg_reset_def cfg_keep_missing_def MIGRATION_CONFIG_def)
  have l': "rs_log (truncate_postgres_tables (cfg_keep_missing\<lparr>skip_missing_tables := Some True\<rparr>)
        [''x_user'', ''x_group'', ''x_role''] pg_reset)
      = [LogFailed ''x_role'', LogSkipMissing ''x_group'', LogCleared ''x_user'']"
    by (simp add: reset_eval pg_reset_def cfg_keep_missing_def MIGRATION_CONFIG_def)
  show ?thesis
    using h n l l' reset_independent_of_skip_missing_tables [where cfg = cfg_keep_missing
        and flag = "Some True" and priority = "[''x_user'', ''x_group'', ''x_role'']"
        and pg = pg_reset]
    by simp
qed

section \<open>Properties of the row transfer engine\<close>

text \<open>
  C6. When the source read of a table returns no rows, the transfer returns 0 and leaves the
  destination connection as it was: no statement is sent, nothing is inserted, committed or
  rolled back.
\<close>

theorem empty_table_transfers_nothing:
  assumes "select_all my table_name = Some []"
  shows "migrate_table_data cfg conversions my pg table_name = (0, pg)"
  using assms by (simp add: migrate_table_data_def)

theorem empty_table_transfers_nothing_witness:
  "select_all my_two_tables ''x_user'' = Some []
   \<and> fst (migrate_table_data MIGRATION_CONFIG TYPE_CONVERSIONS my_two_tables pg_one_table
        ''x_user'') = 0
   \<and> issued (snd (migrate_table_data MIGRATION_CONFIG TYPE_CONVERSIONS my_two_tables
        pg_one_table ''x_user'')) = []
   \<and> working (snd (migrate_table_data MIGRATION_CONFIG TYPE_CONVERSIONS my_two_tables
        pg_one_table ''x_user'')) ''x_user'' = []"
proof -
  have h: "select_all my_two_tables ''x_user'' = Some []"
    by (simp add: select_all_def my_two_tables_def)
  have p: "issued pg_one_table = []" "working pg_one_table ''x_user'' = []"
    by (simp_all add: pg_one_table_def)
  show ?thesis
    using h p empty_table_transfers_nothing [OF h, where cfg = MIGRATION_CONFIG
        and conversions = TYPE_CONVERSIONS and pg = pg_one_table]
    by simp
qed

text \<open>
  C1 fails in the code. Four rows are moved in batches of two and the destination refuses
  the third row only. The first batch is inserted and counted; the failure of the second
  batch rolls back the whole open transaction, the first batch with it, and the single
  commit of the transfer comes after the replay. On PostgreSQL the refused row leaves the
  transaction failed, so the replay of the fourth row is refused too and the commit
  discards everything: the function returns 2 and the table holds no row. On a server
  that keeps the transaction usable it returns 3 and the table holds the fourth row only.
  In both cases the committed rows are not the three rows that the destination accepts.
\<close>

theorem batch_failure_loses_earlier_batches:
  "my_rows my_four_rows ''x_user'' = [user_row 1, user_row 2, user_row 3, user_row 4]
   \<and> get_batch_size cfg_batch2 = 2
   \<and> filter (\<lambda>r. pg_fails pg_strict (InsertInto ''x_user'' user_columns r))
        (my_rows my_four_rows ''x_user'') = [user_row 3]
   \<and> fst (migrate_table_data cfg_batch2 TYPE_CONVERSIONS my_four_rows pg_strict ''x_user'') = 2
   \<and> committed (snd (migrate_table_data cfg_batch2 TYPE_CONVERSIONS my_four_rows pg_strict
        ''x_user'')) ''x_user'' = []
   \<and> fst (migrate_table_data cfg_batch2 TYPE_CONVERSIONS my_four_rows pg_lenient ''x_user'') = 3
   \<and> committed (snd (migrate_table_data cfg_batch2 TYPE_CONVERSIONS my_four_rows pg_lenient
        ''x_user'')) ''x_user'' = [zip user_columns (user_row 4)]"
proof -
  have a: "my_rows my_four_rows ''x_user'' = [user_row 1, user_row 2, user_row 3, user_row 4]"
    "get_batch_size cfg_batch2 = 2"
    by (simp_all add: my_four_rows_def cfg_batch2_def MIGRATION_CONFIG_def get_batch_size_def)
  have b: "filter (\<lambda>r. pg_fails pg_strict (InsertInto ''x_user'' user_columns r))
        (my_rows my_four_rows ''x_user'') = [user_row 3]"
    by (simp add: my_four_rows_def pg_strict_def user_row_def)
  have c: "apply_conversions TYPE_CONVERSIONS ''x_user'' cols r = r" for cols r
    by (simp add: TYPE_CONVERSIONS_def)
  have d: "chunks 2 [user_row 1, user_row 2, user_row 3, user_row 4]
      = [[user_row 1, user_row 2], [user_row 3, user_row 4]]"
    by (simp add: numeral_2_eq_2)
  have s: "migrate_table_data cfg_batch2 TYPE_CONVERSIONS my_four_rows pg_strict ''x_user''
      = (case insert_batches pg_strict ''x_user'' user_columns
                [[user_row 1, user_row 2], [user_row 3, user_row 4]] 0 of
           (c, None) \<Rightarrow> critical_error c
         | (c, Some insert_count) \<Rightarrow>
             (case pg_commit c of
                (c', False) \<Rightarrow> critical_error c'
              | (c', True) \<Rightarrow> (insert_count, c')))"
    by (simp add: migrate_table_data_def select_all_def show_columns_def convert_data_types_def
        a c d my_four_rows_def)
  have l: "migrate_table_data cfg_batch2 TYPE_CONVERSIONS my_four_rows pg_lenient ''x_user''
      = (case insert_batches pg_lenient ''x_user'' user_columns
                [[user_row 1, user_row 2], [user_row 3, user_row 4]] 0 of
           (c, None) \<Rightarrow> critical_error c
         | (c, Some insert_count) \<Rightarrow>
             (case pg_commit c of
                (c', False) \<Rightarrow> critical_error c'
              | (c', True) \<Rightarrow> (insert_count, c')))"
    by (simp add: migrate_table_data_def select_all_def show_columns_def convert_data_types_def
        a c d my_four_rows_def)
  have e: "fst (migrate_table_data cfg_batch2 TYPE_CONVERSIONS my_four_rows pg_strict ''x_user'')
      = 2"
    unfolding s
    by (simp add: pg_execute_def pg_commit_def pg_rollback_def Let_def pg_strict_def
        user_row_def user_columns_def)
  have f: "committed (snd (migrate_table_data cfg_batch2 TYPE_CONVERSIONS my_four_rows pg_strict
        ''x_user'')) ''x_user'' = []"
    unfolding s
    by (simp add: pg_execute_def pg_commit_def pg_rollback_def Let_def pg_strict_def
        user_row_def user_columns_def)
  have g: "fst (migrate_table_data cfg_batch2 TYPE_CONVERSIONS my_four_rows pg_lenient ''x_user'')
      = 3"
    unfolding l
    by (simp add: pg_execute_def pg_commit_def pg_rollback_def Let_def pg_strict_def
        pg_lenient_def user_row_def user_columns_def)
  have h: "committed (snd (migrate_table_data cfg_batch2 TYPE_CONVERSIONS my_four_rows pg_lenient
        ''x_user'')) ''x_user'' = [zip user_columns (user_row 4)]"
    unfolding l
    by (simp add: pg_execute_def pg_commit_def pg_rollback_def Let_def pg_strict_def
        pg_lenient_def user_row_def user_columns_def)
  show ?thesis using a b e f g h by simp
qed

section \<open>Properties of the verification pass\<close>

lemma verify_table_data_result:
  fixes my pg t
  defines "r \<equiv> fst (verify_table_data my pg t)"
  shows "mysql_exists r = my_table_exists my t"
    "postgres_exists r = table_exists pg t"
    "my_table_exists my t \<Longrightarrow> table_exists pg t \<Longrightarrow>
       mysql_count r = get_table_row_count_mysql my t
       \<and> postgres_count r = snd (get_table_row_count_postgres pg t)
       \<and> status r = count_status (mysql_count r) (postgres_count r)"
    "status r = (if \<not> my_table_exists my t \<and> \<not> table_exists pg t then MISSING_BOTH
                 else if \<not> my_table_exists my t then MISSING_MYSQL
                 else if \<not> table_exists pg t then MISSING_POSTGRES
                 else count_status (mysql_count r) (postgres_count r))"
proof -
  obtain pg1 where p: "table_exists_probe pg t = (pg1, table_exists pg t)"
    by (simp add: table_exists_probe_eq)
  have q: "pg1 = pg" if "table_exists pg t"
    using that p by (simp add: table_exists_probe_eq table_exists_iff)
  show "mysql_exists r = my_table_exists my t"
    by (simp add: r_def verify_table_data_def p Let_def split: prod.splits)
  show "postgres_exists r = table_exists pg t"
    by (simp add: r_def verify_table_data_def p Let_def split: prod.splits)
  show "mysql_count r = get_table_row_count_mysql my t
       \<and> postgres_count r = snd (get_table_row_count_postgres pg t)
       \<and> status r = count_status (mysql_count r) (postgres_count r)"
    if "my_table_exists my t" "table_exists pg t"
    using that q by (simp add: r_def verify_table_data_def p Let_def split: prod.splits)
  show "status r = (if \<not> my_table_exists my t \<and> \<not> table_exists pg t then MISSING_BOTH
                 else if \<not> my_table_exists my t then MISSING_MYSQL
                 else if \<not> table_exists pg t then MISSING_POSTGRES
                 else count_status (mysql_count r) (postgres_count r))"
    by (simp add: r_def verify_table_data_def p Let_def split: prod.splits)
qed

text \<open>
  C9. For a table that exists on both sides, when counting the rows raises on both sides
  (both counts are the sentinel \<open>-1\<close>), the status is MATCH.
\<close>

theorem failed_counts_on_both_sides_match:
  assumes "my_table_exists my t" and "table_exists pg t"
    and "get_table_row_count_mysql my t = - 1"
    and "snd (get_table_row_count_postgres pg t) = - 1"
  shows "mysql_count (fst (verify_table_data my pg t)) = - 1
       \<and> postgres_count (fst (verify_table_data my pg t)) = - 1
       \<and> status (fst (verify_table_data my pg t)) = MATCH"
  using verify_table_data_result(3) [OF assms(1,2)] assms(3,4)
  by (simp add: count_status_def)

theorem failed_counts_on_both_sides_match_witness:
  "my_table_exists my_count_fails ''x_user'' \<and> table_exists pg_count_fails ''x_user''
   \<and> my_fails my_count_fails (MyCount ''x_user'')
   \<and> pg_fails pg_count_fails (PgCount ''x_user'')
   \<and> get_table_row_count_mysql my_count_fails ''x_user'' = - 1
   \<and> snd (get_table_row_count_postgres pg_count_fails ''x_user'') = - 1
   \<and> status (fst (verify_table_data my_count_fails pg_count_fails ''x_user'')) = MATCH"
proof -
  have h: "my_table_exists my_count_fails ''x_user''" "table_exists pg_count_fails ''x_user''"
    "my_fails my_count_fails (MyCount ''x_user'')"
    "pg_fails pg_count_fails (PgCount ''x_user'')"
    "get_table_row_count_mysql my_count_fails ''x_user'' = - 1"
    "snd (get_table_row_count_postgres pg_count_fails ''x_user'') = - 1"
    by (simp_all add: my_table_exists_def table_exists_iff get_table_row_count_mysql_def
        get_table_row_count_postgres_def pg_query_def my_count_fails_def pg_count_fails_def)
  show ?thesis
    using h failed_counts_on_both_sides_match [OF h(1,2,5,6)] by simp
qed

lemma mismatched_verify_table_data:
  fixes my pg t
  defines "r \<equiv> fst (verify_table_data my pg t)"
  shows "mismatched r \<longleftrightarrow>
     mysql_exists r
     \<and> (\<not> postgres_exists r
          \<or> (mysql_count r \<noteq> postgres_count r \<and> (postgres_count r = 0 \<or> mysql_count r \<noteq> 0)))"
proof -
  note v = verify_table_data_result [where my = my and pg = pg and t = t, folded r_def]
  show ?thesis
    unfolding mismatched_def v(4) v(1) v(2) by (simp add: count_status_def)
qed

lemma verify_tables_results:
  "r \<in> set (fst (verify_tables my pg ts)) \<Longrightarrow> \<exists>c t. t \<in> set ts \<and> r = fst (verify_table_data my c t)"
proof (induction ts arbitrary: pg)
  case Nil
  then show ?case by simp
next
  case (Cons t ts)
  obtain r1 pg1 where a: "verify_table_data my pg t = (r1, pg1)"
    by (metis prod.exhaust)
  obtain rs pg2 where b: "verify_tables my pg1 ts = (rs, pg2)"
    by (metis prod.exhaust)
  from Cons.prems have "r = r1 \<or> r \<in> set rs"
    by (simp add: a b)
  then show ?case
  proof
    assume "r = r1"
    then have "r = fst (verify_table_data my pg t)" by (simp add: a)
    then show ?thesis by auto
  next
    assume "r \<in> set rs"
    then have "r \<in> set (fst (verify_tables my pg1 ts))" by (simp add: b)
    from Cons.IH [OF this] show ?thesis by auto
  qed
qed

text \<open>
  C8 as stated does not hold: the source table \<open>x_user\<close> is empty, the destination table holds
  one row, the status is EMPTY_MYSQL and the verification exits with 0 although the two
  counts differ.
\<close>

theorem verification_exits_0_with_different_counts:
  "map table (verification_results MIGRATION_CONFIG PRIORITY_TABLES_ORDER remdups
      my_empty_user pg_one_row) = [''x_user'']
   \<and> map mysql_count (verification_results MIGRATION_CONFIG PRIORITY_TABLES_ORDER remdups
      my_empty_user pg_one_row) = [0]
   \<and> map postgres_count (verification_results MIGRATION_CONFIG PRIORITY_TABLES_ORDER remdups
      my_empty_user pg_one_row) = [1]
   \<and> map status (verification_results MIGRATION_CONFIG PRIORITY_TABLES_ORDER remdups
      my_empty_user pg_one_row) = [EMPTY_MYSQL]
   \<and> main env_empty_source MIGRATION_CONFIG PRIORITY_TABLES_ORDER remdups = 0"
proof -
  have t: "fst (get_all_tables MIGRATION_CONFIG PRIORITY_TABLES_ORDER remdups
      my_empty_user pg_one_row) = [''x_user'']"
    "snd (get_all_tables MIGRATION_CONFIG PRIORITY_TABLES_ORDER remdups
      my_empty_user pg_one_row) = pg_one_row"
    by (simp_all add: get_all_tables_def list_tables_def show_tables_def pg_query_def
        order_tables_def is_view_iff MIGRATION_CONFIG_def get_skip_tables_def
        PRIORITY_TABLES_ORDER_def my_empty_user_def pg_one_row_def)
  have r: "verification_results MIGRATION_CONFIG PRIORITY_TABLES_ORDER remdups
      my_empty_user pg_one_row
      = [fst (verify_table_data my_empty_user pg_one_row ''x_user'')]"
  proof -
    have g: "get_all_tables MIGRATION_CONFIG PRIORITY_TABLES_ORDER remdups
        my_empty_user pg_one_row = ([''x_user''], pg_one_row)"
      by (simp add: prod_eq_iff t)
    obtain r1 c1 where a: "verify_table_data my_empty_user pg_one_row ''x_user'' = (r1, c1)"
      by (metis prod.exhaust)
    show ?thesis by (simp add: verification_results_def g a)
  qed
  have v: "table (fst (verify_table_data my_empty_user pg_one_row ''x_user'')) = ''x_user''"
    "mysql_count (fst (verify_table_data my_empty_user pg_one_row ''x_user'')) = 0"
    "postgres_count (fst (verify_table_data my_empty_user pg_one_row ''x_user'')) = 1"
    "status (fst (verify_table_data my_empty_user pg_one_row ''x_user'')) = EMPTY_MYSQL"
    by (simp_all add: verify_table_data_def table_exists_probe_def pg_query_def
        my_table_exists_def get_table_row_count_mysql_def get_table_row_count_postgres_def
        get_table_size_mysql_def get_table_size_postgres_def count_status_def Let_def
        my_empty_user_def pg_one_row_def)
  have m: "main env_empty_source MIGRATION_CONFIG PRIORITY_TABLES_ORDER remdups = 0"
    by (simp add: main_def env_empty_source_def r v mismatched_def)
  show ?thesis using m by (simp add: r v)
qed

text \<open>
  C8, as the code has it. The verification exits with 0 exactly when both connections were
  opened, printing the report did not raise, and no result has the status MISMATCH,
  MISSING_POSTGRES or EMPTY_POSTGRES; in every other case it exits with 1. Every result is
  that of \<^verbatim>\<open>verify_table_data\<close> for a table, and such a result has one of the three statuses
  exactly when the table exists on the source and either is missing on the destination, or
  the two counts differ and the destination count is 0 or the source count is not 0. So a
  table that is missing on the source, and a table whose source count is 0 while the
  destination count is not, do not prevent the exit status 0.
\<close>

theorem verification_exit_status:
  "main env cfg priority set_iter =
     (if \<exists>my pg. mysql_connect env = Some my \<and> postgres_connect env = Some pg
           \<and> \<not> report_raises env (verification_results cfg priority set_iter my pg)
           \<and> (\<forall>r\<in>set (verification_results cfg priority set_iter my pg).
                 status r \<noteq> MISMATCH \<and> status r \<noteq> MISSING_POSTGRES
                 \<and> status r \<noteq> EMPTY_POSTGRES)
      then 0 else 1)
   \<and> (\<forall>my pg. \<forall>r\<in>set (verification_results cfg priority set_iter my pg).
         \<exists>c t. r = fst (verify_table_data my c t))
   \<and> (\<forall>my c t.
         (status (fst (verify_table_data my c t)) = MISMATCH
          \<or> status (fst (verify_table_data my c t)) = MISSING_POSTGRES
          \<or> status (fst (verify_table_data my c t)) = EMPTY_POSTGRES)
         \<longleftrightarrow>
         mysql_exists (fst (verify_table_data my c t))
         \<and> (\<not> postgres_exists (fst (verify_table_data my c t))
              \<or> (mysql_count (fst (verify_table_data my c t))
                    \<noteq> postgres_count (fst (verify_table_data my c t))
                  \<and> (postgres_count (fst (verify_table_data my c t)) = 0
                       \<or> mysql_count (fst (verify_table_data my c t)) \<noteq> 0))))"
proof -
  have f: "filter mismatched rs \<noteq> [] \<longleftrightarrow>
      \<not> (\<forall>r\<in>set rs. status r \<noteq> MISMATCH \<and> status r \<noteq> MISSING_POSTGRES
            \<and> status r \<noteq> EMPTY_POSTGRES)" for rs
    by (auto simp: filter_empty_conv mismatched_def)
  have a: "main env cfg priority set_iter =
     (if \<exists>my pg. mysql_connect env = Some my \<and> postgres_connect env = Some pg
           \<and> \<not> report_raises env (verification_results cfg priority set_iter my pg)
           \<and> (\<forall>r\<in>set (verification_results cfg priority set_iter my pg).
                 status r \<noteq> MISMATCH \<and> status r \<noteq> MISSING_POSTGRES
                 \<and> status r \<noteq> EMPTY_POSTGRES)
      then 0 else 1)"
  proof (cases "mysql_connect env")
    case None
    then show ?thesis by (simp add: main_def)
  next
    case my: (Some my)
    show ?thesis
    proof (cases "postgres_connect env")
      case None
      then show ?thesis by (simp add: main_def my)
    next
      case pg: (Some pg)
      show ?thesis
        by (simp add: main_def my pg Let_def f)
    qed
  qed
  have b: "\<exists>c t. r = fst (verify_table_data my c t)"
    if "r \<in> set (verification_results cfg priority set_iter my pg)" for my pg r
  proof -
    obtain ts pg1 where g: "get_all_tables cfg priority set_iter my pg = (ts, pg1)"
      by (metis prod.exhaust)
    from that have "r \<in> set (fst (verify_tables my pg1 ts))"
      by (simp add: verification_results_def g)
    from verify_tables_results [OF this] show ?thesis by blast
  qed
  have c: "(status (fst (verify_table_data my c t)) = MISMATCH
          \<or> status (fst (verify_table_data my c t)) = MISSING_POSTGRES
          \<or> status (fst (verify_table_data my c t)) = EMPTY_POSTGRES)
         \<longleftrightarrow>
         mysql_exists (fst (verify_table_data my c t))
         \<and> (\<not> postgres_exists (fst (verify_table_data my c t))
              \<or> (mysql_count (fst (verify_table_data my c t))
                    \<noteq> postgres_count (fst (verify_table_data my c t))
                  \<and> (postgres_count (fst (verify_table_data my c t)) = 0
                       \<or> mysql_count (fst (verify_table_data my c t)) \<noteq> 0)))" for my c t
    using mismatched_verify_table_data [of my c t] by (simp add: mismatched_def)
  show ?thesis using a b c by blast
qed

theorem verification_exit_status_witness:
  "mysql_connect env_missing_table = Some my_two_tables
   \<and> postgres_connect env_missing_table = Some pg_one_table
   \<and> map table (verification_results MIGRATION_CONFIG PRIORITY_TABLES_ORDER remdups
        my_two_tables pg_one_table) = [''x_user'', ''x_new'']
   \<and> map status (verification_results MIGRATION_CONFIG PRIORITY_TABLES_ORDER remdups
        my_two_tables pg_one_table) = [MATCH, MISSING_POSTGRES]
   \<and> main env_missing_table MIGRATION_CONFIG PRIORITY_TABLES_ORDER remdups = 1"
proof -
  have e: "mysql_connect env_missing_table = Some my_two_tables"
    "postgres_connect env_missing_table = Some pg_one_table"
    by (simp_all add: env_missing_table_def)
  have t: "fst (get_all_tables MIGRATION_CONFIG PRIORITY_TABLES_ORDER remdups
      my_two_tables pg_one_table) = [''x_user'', ''x_new'']"
    "snd (get_all_tables MIGRATION_CONFIG PRIORITY_TABLES_ORDER remdups
      my_two_tables pg_one_table) = pg_one_table"
    by (simp_all add: get_all_tables_def list_tables_def show_tables_def pg_query_def
        order_tables_def is_view_iff MIGRATION_CONFIG_def get_skip_tables_def
        PRIORITY_TABLES_ORDER_def my_two_tables_def pg_one_table_def)
  have p: "snd (verify_table_data my_two_tables pg_one_table ''x_user'') = pg_one_table"
    by (simp add: verify_table_data_def table_exists_probe_def pg_query_def
        my_table_exists_def get_table_row_count_mysql_def get_table_row_count_postgres_def
        get_table_size_mysql_def get_table_size_postgres_def count_status_def Let_def
        my_two_tables_def pg_one_table_def)
  have r: "verification_results MIGRATION_CONFIG PRIORITY_TABLES_ORDER remdups
      my_two_tables pg_one_table
      = [fst (verify_table_data my_two_tables pg_one_table ''x_user''),
         fst (verify_table_data my_two_tables pg_one_table ''x_new'')]"
  proof -
    have g: "get_all_tables MIGRATION_CONFIG PRIORITY_TABLES_ORDER remdups
        my_two_tables pg_one_table = ([''x_user'', ''x_new''], pg_one_table)"
      by (simp add: prod_eq_iff t)
    obtain r1 where a: "verify_table_data my_two_tables pg_one_table ''x_user''
        = (r1, pg_one_table)"
      using p by (metis prod.collapse)
    obtain r2 c2 where b: "verify_table_data my_two_tables pg_one_table ''x_new'' = (r2, c2)"
      by (metis prod.exhaust)
    show ?thesis by (simp add: verification_results_def g a b)
  qed
  have v: "table (fst (verify_table_data my_two_tables pg_one_table ''x_user'')) = ''x_user''"
    "table (fst (verify_table_data my_two_tables pg_one_table ''x_new'')) = ''x_new''"
    "status (fst (verify_table_data my_two_tables pg_one_table ''x_user'')) = MATCH"
    "status (fst (verify_table_data my_two_tables pg_one_table ''x_new'')) = MISSING_POSTGRES"
    by (simp_all add: verify_table_data_def table_exists_probe_def pg_query_def
        my_table_exists_def get_table_row_count_mysql_def get_table_row_count_postgres_def
        get_table_size_mysql_def get_table_size_postgres_def count_status_def Let_def
        my_two_tables_def pg_one_table_def)
  show ?thesis
    using e verification_exit_status [where env = env_missing_table
        and cfg = MIGRATION_CONFIG and priority = PRIORITY_TABLES_ORDER and set_iter = remdups]
    by (simp add: r v)
qed

section \<open>Properties of the sequence reconciler\<close>










end
